theory Spec2Isabelle
  imports Main "HOL-Library.Word" "HOL-Library.Signed_Division"
begin

unbundle bit_operations_syntax

section \<open>Control software of the 8-band SSB transceiver (8-band-trx2.c)\<close>

text \<open>
  The target is an STM32F411 (32-bit ARM, GCC): \<open>int\<close>, \<open>long\<close> and
  \<open>unsigned long\<close> are 32 bits wide. Frequencies and counters of type \<open>long\<close> are
  32-bit words whose arithmetic wraps; signed comparisons are written \<open><s\<close> and
  \<open>\<le>s\<close>. The \<open>int\<close> variables with small values (band index, VFO id, sideband
  flag, tuning direction, key codes, ADC samples, screen positions and colours) are HOL
  integers: they are only ever assigned values between \<open>-1\<close> and \<open>65535\<close>. The arrays \<open>f_lo\<close> and \<open>f_vfo\<close> are functions of their
  indices; the program indexes them with \<open>cur_band\<close> in 0..7, \<open>cur_vfo\<close> and the
  sideband in 0..1 only.

  The state of the radio is one record. Next to the C globals it holds the content of
  the EEPROM, the output registers of the GPIO ports that the modelled functions write,
  and a record of what was sent to the three output devices: the pin values of the DDS
  link, the calls that program the LO synthesizer, and the calls that draw on the
  display. Functions that wait for input or whose C behaviour can be undefined return
  a sum: \<open>Inl\<close> an error, \<open>Inr\<close> the result.
\<close>

type_synonym long = "32 word"
type_synonym ulong = "32 word"
type_synonym uint8 = "8 word"
type_synonym uint16 = "16 word"

subsection \<open>The environment: interrupts and ADC conversions\<close>

text \<open>
  The inputs of the program are a sequence of hardware events: an EXTI0 interrupt
  (rising edge of the rotary encoder, with the value of \<open>GPIOB->IDR\<close> at that
  moment), a TIM2 update interrupt (one tick of the time base) and a completed ADC
  conversion with its 12-bit result. Interrupts are serviced while the program waits
  for a conversion in \<open>get_adc\<close>; an interrupt between two other statements is not
  part of the model. A finite event list is a finite prefix of the input: when it is
  used up inside a wait, the call has not returned (\<open>Blocked\<close>).
\<close>

datatype event = Exti0 uint16 | Tim2 | Adc "12 word"

datatype error =
    Blocked         \<comment> \<open>waiting for input that the event list does not hold\<close>
  | Div_by_zero     \<comment> \<open>integer division by zero\<close>
  | Dds_overflow    \<comment> \<open>double to unsigned long conversion out of range\<close>

text \<open>
  The display driver is a sink: the model records the calls of \<open>lcd_putstring\<close>
  and \<open>lcd_putnumber\<close> with their arguments instead of the pixels they push.
\<close>

datatype lcd_op =
    Putstring int int string int int int int
  | Putnumber int int long int int int int int

record radio =
  cur_vfo :: int
  cur_band :: int
  sideband :: int
  f_lo :: "int \<Rightarrow> long"
  f_vfo :: "int \<Rightarrow> int \<Rightarrow> long"
  tuning :: int
  pulses :: long
  runsecs :: long
  runsecs_msg :: long
  eeprom :: "uint16 \<Rightarrow> uint8"     \<comment> \<open>content of the 24C65\<close>
  gpioa_odr :: "32 word"              \<comment> \<open>band relay lines PA10..PA12\<close>
  gpiob_odr :: "32 word"              \<comment> \<open>DDS lines PB12..PB15\<close>
  gpioc_odr :: "32 word"              \<comment> \<open>on-board LED PC13\<close>
  dds_pins :: "32 word list"          \<comment> \<open>every value written to \<open>GPIOB->ODR\<close>, oldest first\<close>
  si5351 :: "(int \<times> long) list"      \<comment> \<open>the calls \<open>si5351_set_freq(synth, freq)\<close>, oldest first\<close>
  lcd :: "lcd_op list"                \<comment> \<open>the display calls, oldest first\<close>
  adc_in :: "event list"              \<comment> \<open>the hardware events still to come\<close>

subsection \<open>Constants and tables\<close>

definition MAXBANDS :: int where "MAXBANDS = 8"
definition INTERFREQUENCY :: long where "INTERFREQUENCY = 10000000"
definition SYNTH_MS_0 :: int where "SYNTH_MS_0 = 42"
definition DDS_IO_UD :: nat where "DDS_IO_UD = 12"
definition DDS_SDIO :: nat where "DDS_SDIO = 13"
definition DDS_SCLK :: nat where "DDS_SCLK = 14"

definition f_vfo0 :: "long list list" where
  "f_vfo0 = [[ 1888000,  1961000],
             [ 3650000,  3650000],
             [ 7120000,  7120000],
             [14200000, 14280000],
             [18080000, 18150000],
             [21290000, 21390000],
             [24910000, 24912000],
             [28500000, 28590000]]"

definition pref_sideband :: "int list" where
  "pref_sideband = [0, 0, 0, 1, 1, 1, 1, 1]"

definition band_f0 :: "long list" where
  "band_f0 = [1810000, 3500000, 7000000, 14000000, 18065000, 21000000, 24890000, 28000000]"

definition band_f1 :: "long list" where
  "band_f1 = [2000000, 3800000, 7200000, 14350000, 18165000, 21465000, 24990000, 29700000]"

text \<open>
  The state after reset: the C globals are zero-initialised, the output registers hold
  their reset value 0, and an erased EEPROM reads 0xFF everywhere.
\<close>

definition reset_state :: radio where
  "reset_state =
     \<lparr>cur_vfo = 0, cur_band = 0, sideband = 0, f_lo = (\<lambda>_. 0), f_vfo = (\<lambda>_ _. 0),
      tuning = 0, pulses = 0, runsecs = 0, runsecs_msg = 0, eeprom = (\<lambda>_. 0xFF),
      gpioa_odr = 0, gpiob_odr = 0, gpioc_odr = 0, dds_pins = [], si5351 = [], lcd = [],
      adc_in = []\<rparr>"

subsection \<open>Interrupt handlers\<close>

definition EXTI0_IRQHandler :: "uint16 \<Rightarrow> radio \<Rightarrow> radio" where
  "EXTI0_IRQHandler idr st =
     (let st1 = st\<lparr>gpioc_odr := gpioc_odr st XOR push_bit 13 1\<rparr>;
          state = idr AND 0x03
      in if state AND 1 \<noteq> 0 then
           (if state AND 2 \<noteq> 0
            then st1\<lparr>tuning := 1, pulses := pulses st1 + 1\<rparr>
            else st1\<lparr>tuning := -1, pulses := pulses st1 + 1\<rparr>)
         else st1)"

definition TIM2_IRQHandler :: "radio \<Rightarrow> radio" where
  "TIM2_IRQHandler st = st\<lparr>pulses := 0, runsecs := runsecs st + 1\<rparr>"

subsection \<open>EEPROM 24C65\<close>

text \<open>
  Both \<open>eeprom_write\<close> and \<open>i2c_read2\<close> send the memory address as two bytes, most
  significant first; the chip puts them together again. The store returns at each
  address the byte last written there.
\<close>

definition i2c_address :: "uint8 \<Rightarrow> uint8 \<Rightarrow> uint16" where
  "i2c_address msb lsb = push_bit 8 (ucast msb) OR ucast lsb"

definition eeprom_write :: "uint16 \<Rightarrow> uint8 \<Rightarrow> radio \<Rightarrow> radio" where
  "eeprom_write mem_address v st =
     (let data0 = (ucast (drop_bit 8 mem_address) :: uint8);
          data1 = (ucast (mem_address AND 0xFF) :: uint8)
      in st\<lparr>eeprom := (eeprom st)(i2c_address data0 data1 := v)\<rparr>)"

definition eeprom_read :: "uint16 \<Rightarrow> radio \<Rightarrow> uint8" where
  "eeprom_read mem_address st =
     (let r_msb = (ucast (drop_bit 8 (mem_address AND 0xFF00)) :: uint8);
          r_lsb = (ucast (mem_address AND 0x00FF) :: uint8)
      in eeprom st (i2c_address r_msb r_lsb))"

definition is_freq_ok :: "long \<Rightarrow> int \<Rightarrow> bool" where
  "is_freq_ok f cband = (band_f0 ! nat cband \<le>s f \<and> f \<le>s band_f1 ! nat cband)"

definition eeprom_load_frequency :: "int \<Rightarrow> int \<Rightarrow> radio \<Rightarrow> long" where
  "eeprom_load_frequency band vfo st =
     (let start_adr = vfo * 4 + band * 8 + 128;
          hmsb = eeprom_read (word_of_int start_adr) st;
          hlsb = eeprom_read (word_of_int (start_adr + 1)) st;
          lmsb = eeprom_read (word_of_int (start_adr + 2)) st;
          llsb = eeprom_read (word_of_int (start_adr + 3)) st
      in 16777216 * ucast hmsb + 65536 * ucast hlsb + 256 * ucast lmsb + ucast llsb)"

definition eeprom_store_frequency :: "int \<Rightarrow> int \<Rightarrow> long \<Rightarrow> radio \<Rightarrow> radio" where
  "eeprom_store_frequency band vfo f st =
     (let start_adr = vfo * 4 + band * 8 + 128;
          hiword = signed_drop_bit 16 f;
          loword = f - push_bit 16 hiword;
          hmsb = (ucast (signed_drop_bit 8 hiword) :: uint8);
          hlsb = (ucast (hiword - push_bit 8 (ucast hmsb)) :: uint8);
          lmsb = (ucast (signed_drop_bit 8 loword) :: uint8);
          llsb = (ucast (loword - push_bit 8 (ucast lmsb)) :: uint8);
          st1 = eeprom_write (word_of_int start_adr) hmsb st;
          st2 = eeprom_write (word_of_int (start_adr + 1)) hlsb st1;
          st3 = eeprom_write (word_of_int (start_adr + 2)) lmsb st2
      in eeprom_write (word_of_int (start_adr + 3)) llsb st3)"

subsection \<open>Display calls\<close>

definition FONTWIDTH :: int where "FONTWIDTH = 8"
definition FONTHEIGHT :: int where "FONTHEIGHT = 12"
definition WHITE :: int where "WHITE = 0xFFFF"
definition YELLOW :: int where "YELLOW = 0xFF00"
definition LIGHTBLUE :: int where "LIGHTBLUE = 0x755C"
definition LIGHTRED :: int where "LIGHTRED = 0xFA60"
definition LIGHTGREEN :: int where "LIGHTGREEN = 0x27E0"
definition backcolor :: int where "backcolor = 0x20AA"

definition calc_xpos :: "int \<Rightarrow> int" where
  "calc_xpos col = col * FONTWIDTH"

definition calc_ypos :: "int \<Rightarrow> int" where
  "calc_ypos row = row * (FONTHEIGHT + 5) + 5"

definition lcd_putstring :: "int \<Rightarrow> int \<Rightarrow> string \<Rightarrow> int \<Rightarrow> int \<Rightarrow> int \<Rightarrow> int \<Rightarrow> radio \<Rightarrow> radio" where
  "lcd_putstring x0 y0 s fcol bcol xf yf st =
     st\<lparr>lcd := lcd st @ [Putstring x0 y0 s fcol bcol xf yf]\<rparr>"

definition lcd_putnumber :: "int \<Rightarrow> int \<Rightarrow> long \<Rightarrow> int \<Rightarrow> int \<Rightarrow> int \<Rightarrow> int \<Rightarrow> int \<Rightarrow> radio \<Rightarrow> radio" where
  "lcd_putnumber col row num dec fcolor bcolor xf yf st =
     st\<lparr>lcd := lcd st @ [Putnumber col row num dec fcolor bcolor xf yf]\<rparr>"

subsection \<open>ADC and keypad\<close>

text \<open>
  \<open>get_adc\<close> starts a conversion and waits for its end. The interrupts that arrive
  before the conversion completes run their handlers first.
\<close>

fun wait_adc :: "event list \<Rightarrow> radio \<Rightarrow> error + (int \<times> radio)" where
  "wait_adc [] st = Inl Blocked"
| "wait_adc (Adc v # es) st = Inr (uint v, st\<lparr>adc_in := es\<rparr>)"
| "wait_adc (Tim2 # es) st = wait_adc es (TIM2_IRQHandler (st\<lparr>adc_in := es\<rparr>))"
| "wait_adc (Exti0 idr # es) st = wait_adc es (EXTI0_IRQHandler idr (st\<lparr>adc_in := es\<rparr>))"

definition get_adc :: "int \<Rightarrow> radio \<Rightarrow> error + (int \<times> radio)" where
  "get_adc adc_channel st = wait_adc (adc_in st) st"

definition key_value :: "int list" where
  "key_value = [370, 735, 1320, 2462, 1863, 3135]"

text \<open>The sampling loop of \<open>get_keys\<close>: it runs while the key is held down.\<close>

lemma wait_adc_shorter:
  "wait_adc es st = Inr (v, st') \<Longrightarrow> length (adc_in st') < length es"
  by (induction es st rule: wait_adc.induct) (auto simp add: less_Suc_eq)

lemma get_adc_shorter:
  "get_adc ch st = Inr (v, st') \<Longrightarrow> length (adc_in st') < length (adc_in st)"
  unfolding get_adc_def by (rule wait_adc_shorter)

function key_wait :: "long \<Rightarrow> long \<Rightarrow> long \<Rightarrow> radio \<Rightarrow> error + (long \<times> long \<times> radio)" where
  "key_wait adcval1 adcvalcnt secs0 st =
     (case get_adc 1 st of
        Inl e \<Rightarrow> Inl e
      | Inr (c, st1) \<Rightarrow>
          if c \<le> 4000 then
            (case get_adc 1 st1 of
               Inl e \<Rightarrow> Inl e
             | Inr (v, st2) \<Rightarrow>
                 key_wait (adcval1 + word_of_int v) (adcvalcnt + 1) secs0
                   (lcd_putnumber (calc_xpos 0) (calc_ypos 5) (runsecs st2 - secs0) (-1)
                      YELLOW backcolor 1 1 st2))
          else Inr (adcval1, adcvalcnt, st1))"
  by pat_completeness auto
termination
  apply (relation "measure (\<lambda>(adcval1, adcvalcnt, secs0, st). length (adc_in st))")
   apply simp
  apply (auto simp add: lcd_putnumber_def dest!: get_adc_shorter)
  done

text \<open>The matching loop of \<open>get_keys\<close> over the six key voltages.\<close>

function key_scan :: "int \<Rightarrow> int \<Rightarrow> long \<Rightarrow> radio \<Rightarrow> int \<times> radio" where
  "key_scan t1 adcval0 secs0 st =
     (if t1 < 6 then
        (if adcval0 > key_value ! nat t1 - 100 \<and> adcval0 < key_value ! nat t1 + 100 then
           (let st1 = lcd_putstring (calc_xpos 0) (calc_ypos 6) ''KEY:    '' WHITE backcolor 1 1 st;
                st2 = st1\<lparr>runsecs_msg := runsecs st1\<rparr>
            in if (runsecs st2 - secs0) <s 2
               then (t1, lcd_putnumber (calc_xpos 4) (calc_ypos 6) (word_of_int t1) (-1)
                           YELLOW backcolor 1 1 st2)
               else (t1 + 6, lcd_putnumber (calc_xpos 4) (calc_ypos 6) (word_of_int (t1 + 6)) (-1)
                               YELLOW backcolor 1 1 st2))
         else key_scan (t1 + 1) adcval0 secs0 st)
      else (-1, st))"
  by pat_completeness auto
termination
  by (relation "measure (\<lambda>(t1, adcval0, secs0, st). nat (6 - t1))") auto

definition get_keys :: "radio \<Rightarrow> error + (int \<times> radio)" where
  "get_keys st =
     (case get_adc 1 st of
        Inl e \<Rightarrow> Inl e
      | Inr (adcval0, st1) \<Rightarrow>
          (let secs0 = runsecs st1 in
           if adcval0 > 4000 then Inr (-1, st1)
           else
             (case key_wait 0 0 secs0 st1 of
                Inl e \<Rightarrow> Inl e
              | Inr (adcval1, adcvalcnt, st2) \<Rightarrow>
                  if adcvalcnt = 0 then Inl Div_by_zero
                  else Inr (key_scan 0 (sint (word_of_int (sint adcval1 sdiv sint adcvalcnt) :: long))
                              secs0 st2))))"

declare key_wait.simps [simp del]
declare key_scan.simps [simp del]

subsection \<open>DDS AD9951: serial link on PB12..PB14\<close>

text \<open>Every assignment to \<open>GPIOB->ODR\<close> changes the pins and is recorded.\<close>

definition gpiob_write :: "32 word \<Rightarrow> radio \<Rightarrow> radio" where
  "gpiob_write w st = st\<lparr>gpiob_odr := w, dds_pins := dds_pins st @ [w]\<rparr>"

function spi_send_loop :: "nat \<Rightarrow> 32 word \<Rightarrow> 32 word \<Rightarrow> radio \<Rightarrow> radio" where
  "spi_send_loop t1 x sbyte st =
     (if t1 < 8 then
        (let st1 = gpiob_write (gpiob_odr st AND NOT (push_bit DDS_SCLK 1)) st;
             st2 = (if sbyte AND x \<noteq> 0
                    then gpiob_write (gpiob_odr st1 OR push_bit DDS_SDIO 1) st1
                    else gpiob_write (gpiob_odr st1 AND NOT (push_bit DDS_SDIO 1)) st1);
             st3 = gpiob_write (gpiob_odr st2 OR push_bit DDS_SCLK 1) st2
         in spi_send_loop (t1 + 1) (drop_bit 1 x) sbyte st3)
      else st)"
  by pat_completeness auto
termination
  by (relation "measure (\<lambda>(t1, x, sbyte, st). 8 - t1)") auto

declare spi_send_loop.simps [simp del]

definition spi_send_byte :: "32 word \<Rightarrow> radio \<Rightarrow> radio" where
  "spi_send_byte sbyte st = spi_send_loop 0 (push_bit 7 1) sbyte st"

text \<open>
  The tuning word is computed in double precision:
  \<open>fword = (unsigned long) (f + INTERFREQUENCY) * 10.73741824\<close>. The 32-bit sum is
  converted to binary64 exactly; the literal is the binary64 number
  \<open>DDS_SCALE / 2^49\<close>; the product is rounded to 53 significant bits, to nearest and
  ties to even; the assignment truncates it to an integer. The conversion of a value
  of \<open>2^32\<close> or more to \<open>unsigned long\<close> is undefined in C and is an error of the
  model.
\<close>

fun bit_length :: "nat \<Rightarrow> nat" where
  "bit_length n = (if n = 0 then 0 else Suc (bit_length (n div 2)))"

declare bit_length.simps [simp del]

definition DDS_SCALE :: nat where
  "DDS_SCALE = 6044629098073146"

definition round_binary64 :: "nat \<Rightarrow> nat" where
  "round_binary64 n =
     (let l = bit_length n in
      if l \<le> 53 then n
      else
        (let s = l - 53; q = n div 2 ^ s; r = n mod 2 ^ s
         in (if 2 ^ s < 2 * r \<or> (2 * r = 2 ^ s \<and> odd q) then q + 1 else q) * 2 ^ s))"

definition dds_fword :: "ulong \<Rightarrow> error + ulong" where
  "dds_fword n =
     (let p = round_binary64 (unat n * DDS_SCALE) div 2 ^ 49
      in if p < 2 ^ 32 then Inr (of_nat p) else Inl Dds_overflow)"

function fword_loop :: "nat \<Rightarrow> int \<Rightarrow> ulong \<Rightarrow> ulong \<Rightarrow> radio \<Rightarrow> radio" where
  "fword_loop t1 shiftbyte comparebyte fword st =
     (if t1 < 4 then
        (let resultbyte = drop_bit (nat shiftbyte) (fword AND comparebyte)
         in fword_loop (t1 + 1) (shiftbyte - 8) (drop_bit 8 comparebyte) fword
              (spi_send_byte resultbyte st))
      else st)"
  by pat_completeness auto
termination
  by (relation "measure (\<lambda>(t1, shiftbyte, comparebyte, fword, st). 4 - t1)") auto

declare fword_loop.simps [simp del]

definition set_frequency :: "ulong \<Rightarrow> radio \<Rightarrow> error + radio" where
  "set_frequency frequency st =
     (let f = frequency in
      case dds_fword (f + INTERFREQUENCY) of
        Inl e \<Rightarrow> Inl e
      | Inr fword \<Rightarrow>
          (let st1 = gpiob_write (gpiob_odr st AND NOT (push_bit DDS_IO_UD 1)) st;
               st2 = spi_send_byte 0x04 st1;
               st3 = fword_loop 0 24 0xFF000000 fword st2
           in Inr (gpiob_write (gpiob_odr st3 OR push_bit DDS_IO_UD 1) st3)))"

text \<open>
  What the AD9951 sees on its pins: it samples SDIO at every rising edge of SCLK and
  shifts the bits into bytes, most significant bit first. \<open>dds_sample prev ws\<close> are
  the bits sampled along the pin values \<open>ws\<close> that follow the pin value \<open>prev\<close>.
\<close>

fun dds_sample :: "32 word \<Rightarrow> 32 word list \<Rightarrow> bool list" where
  "dds_sample prev [] = []"
| "dds_sample prev (w # ws) =
     (if \<not> bit prev DDS_SCLK \<and> bit w DDS_SCLK
      then bit w DDS_SDIO # dds_sample w ws
      else dds_sample w ws)"

fun dds_bytes :: "bool list \<Rightarrow> uint8 list" where
  "dds_bytes (b7 # b6 # b5 # b4 # b3 # b2 # b1 # b0 # bs) =
     horner_sum of_bool 2 [b0, b1, b2, b3, b4, b5, b6, b7] # dds_bytes bs"
| "dds_bytes bs = []"

text \<open>The pin values written between two states.\<close>

definition dds_written :: "radio \<Rightarrow> radio \<Rightarrow> 32 word list" where
  "dds_written st st' = drop (length (dds_pins st)) (dds_pins st')"

subsection \<open>Radio display functions\<close>

definition LIGHTBROWN :: int where "LIGHTBROWN = 0xF64F"
definition LIGHTGRAY :: int where "LIGHTGRAY = 0xC5D7"
definition LIGHTVIOLET2 :: int where "LIGHTVIOLET2 = 0x9BD9"
definition LIGHTYELLOW :: int where "LIGHTYELLOW = 0xF7E0"
definition DARKBLUE :: int where "DARKBLUE = 0x0A73"

text \<open>Division of \<open>long\<close> values truncates towards zero.\<close>

definition sdiv_long :: "long \<Rightarrow> long \<Rightarrow> long" where
  "sdiv_long a b = word_of_int (sint a sdiv sint b)"

text \<open>The logical negation \<open>!x\<close> of C.\<close>

definition lnot :: "int \<Rightarrow> int" where
  "lnot x = (if x = 0 then 1 else 0)"

definition show_frequency1 :: "long \<Rightarrow> int \<Rightarrow> radio \<Rightarrow> radio" where
  "show_frequency1 f csize st =
     (let y = calc_ypos 3;
          fcolor = WHITE;
          x = (if f <s 10000000 then 128 - FONTWIDTH * 12 - 5 else 128 - FONTWIDTH * 14 - 5)
      in if f = 0 then lcd_putstring 0 y ''       '' backcolor backcolor csize csize st
         else if csize = 1 then lcd_putnumber x y f 3 fcolor backcolor csize csize st
         else lcd_putnumber x y (sdiv_long f 100) 1 fcolor backcolor csize csize st)"

definition show_frequency2 :: "long \<Rightarrow> radio \<Rightarrow> radio" where
  "show_frequency2 f st =
     (let ypos = calc_ypos 2;
          xpos = (if f <s 10000000 then calc_xpos 10 else calc_xpos 9);
          st1 = lcd_putstring (9 * FONTWIDTH) ypos ''       '' WHITE backcolor 1 1 st
      in lcd_putnumber xpos ypos (sdiv_long f 100) 1 WHITE backcolor 1 1 st1)"

definition band_str :: "string list" where
  "band_str = [''160m'', ''80m '', ''40m '', ''20m '', ''17m '', ''15m '', ''12m '', ''10m '']"

definition show_band :: "int \<Rightarrow> int \<Rightarrow> radio \<Rightarrow> radio" where
  "show_band band invert st =
     (let xpos = calc_xpos 0; ypos = calc_ypos 0;
          forecolor =
            (if band = 0 then LIGHTBLUE
             else if band = 1 then LIGHTBROWN
             else if band = 2 then LIGHTGREEN
             else if band = 3 then LIGHTGRAY
             else if band = 4 then LIGHTVIOLET2
             else if band = 5 then YELLOW
             else if band = 6 then LIGHTYELLOW
             else WHITE)
      in if invert \<noteq> 0
         then lcd_putstring xpos ypos (band_str ! nat band) backcolor forecolor 1 1 st
         else lcd_putstring xpos ypos (band_str ! nat band) forecolor backcolor 1 1 st)"

definition sidebandstr :: "string list" where
  "sidebandstr = [''LSB'', ''USB'']"

text \<open>The colour of the sideband indicator follows the global \<open>sideband\<close>, its text the argument.\<close>

definition show_sideband :: "int \<Rightarrow> int \<Rightarrow> radio \<Rightarrow> radio" where
  "show_sideband sb invert st =
     (let xpos = calc_xpos 7; ypos = calc_ypos 0;
          forecolor = (if sideband st = 0 then LIGHTRED else LIGHTBLUE)
      in if invert \<noteq> 0
         then lcd_putstring xpos ypos (sidebandstr ! nat sb) backcolor forecolor 1 1 st
         else lcd_putstring xpos ypos (sidebandstr ! nat sb) forecolor backcolor 1 1 st)"

definition vfostr :: "string list" where
  "vfostr = [''VFOA'', ''VFOB'']"

definition show_vfo :: "int \<Rightarrow> int \<Rightarrow> int \<Rightarrow> radio \<Rightarrow> radio" where
  "show_vfo cvfo cband invert st =
     (let xpos = calc_xpos 12; ypos = calc_ypos 0;
          forecolor = (if cvfo = 0 then WHITE else YELLOW);
          st1 = (if cvfo = 0 then show_frequency2 (f_vfo st cband 1) st
                 else show_frequency2 (f_vfo st cband 0) st)
      in if invert = 0
         then lcd_putstring xpos ypos (vfostr ! nat cvfo) forecolor backcolor 1 1 st1
         else lcd_putstring xpos ypos (vfostr ! nat cvfo) DARKBLUE forecolor 1 1 st1)"

definition show_msg :: "string \<Rightarrow> int \<Rightarrow> radio \<Rightarrow> radio" where
  "show_msg msg fcolor st =
     (let xpos = calc_xpos 0; ypos = calc_ypos 6;
          st1 = lcd_putstring xpos ypos ''                '' fcolor backcolor 1 1 st
      in lcd_putstring xpos ypos msg fcolor backcolor 1 1 st1)"

subsection \<open>Si5351 and band relays\<close>

text \<open>
  \<open>si5351_set_freq\<close> computes the multisynth registers in floating point and writes
  them over I2C. The model records the call with its arguments; the register values are
  not part of it.
\<close>

definition si5351_set_freq :: "int \<Rightarrow> long \<Rightarrow> radio \<Rightarrow> radio" where
  "si5351_set_freq synth freq st = st\<lparr>si5351 := si5351 st @ [(synth, freq)]\<rparr>"

function relay_loop :: "nat \<Rightarrow> int \<Rightarrow> radio \<Rightarrow> radio" where
  "relay_loop t1 b st =
     (if t1 < 3 then
        relay_loop (t1 + 1) b
          (if push_bit t1 1 AND b \<noteq> 0
           then st\<lparr>gpioa_odr := gpioa_odr st OR push_bit (10 + t1) 1\<rparr>
           else st\<lparr>gpioa_odr := gpioa_odr st AND NOT (push_bit (10 + t1) 1)\<rparr>)
      else st)"
  by pat_completeness auto
termination
  by (relation "measure (\<lambda>(t1, b, st). 3 - t1)") auto

declare relay_loop.simps [simp del]

definition set_band_relay :: "int \<Rightarrow> radio \<Rightarrow> radio" where
  "set_band_relay b st =
     (let st1 = relay_loop 0 b st;
          st2 = si5351_set_freq SYNTH_MS_0 (f_lo st1 (pref_sideband ! nat b)) st1
      in show_sideband (pref_sideband ! nat b) 0 st2)"

subsection \<open>Saving and loading the VFO frequencies\<close>

function save_vfo_row :: "int \<Rightarrow> int \<Rightarrow> radio \<Rightarrow> radio" where
  "save_vfo_row t0 t1 st =
     (if t1 < 2 then save_vfo_row t0 (t1 + 1) (eeprom_store_frequency t0 t1 (f_vfo st t0 t1) st)
      else st)"
  by pat_completeness auto
termination
  by (relation "measure (\<lambda>(t0, t1, st). nat (2 - t1))") auto

function save_vfo_rows :: "int \<Rightarrow> radio \<Rightarrow> radio" where
  "save_vfo_rows t0 st =
     (if t0 < MAXBANDS then save_vfo_rows (t0 + 1) (save_vfo_row t0 0 st) else st)"
  by pat_completeness auto
termination
  by (relation "measure (\<lambda>(t0, st). nat (MAXBANDS - t0))") auto

definition save_all_vfos :: "radio \<Rightarrow> radio" where
  "save_all_vfos st =
     (let st1 = save_vfo_rows 0 st in eeprom_write 257 (word_of_int (cur_vfo st1)) st1)"

function load_vfo_row :: "int \<Rightarrow> int \<Rightarrow> radio \<Rightarrow> radio" where
  "load_vfo_row t0 t1 st =
     (if t1 < 2 then
        (let st1 = st\<lparr>f_vfo := (f_vfo st)(t0 := (f_vfo st t0)(t1 := eeprom_load_frequency t0 t1 st))\<rparr>;
             st2 = (if \<not> is_freq_ok (f_vfo st1 t0 t1) t0
                    then st1\<lparr>f_vfo := (f_vfo st1)(t0 := (f_vfo st1 t0)(t1 := f_vfo0 ! nat t0 ! nat t1))\<rparr>
                    else st1)
         in load_vfo_row t0 (t1 + 1) st2)
      else st)"
  by pat_completeness auto
termination
  by (relation "measure (\<lambda>(t0, t1, st). nat (2 - t1))") auto

function load_vfo_rows :: "int \<Rightarrow> radio \<Rightarrow> radio" where
  "load_vfo_rows t0 st =
     (if t0 < MAXBANDS then load_vfo_rows (t0 + 1) (load_vfo_row t0 0 st) else st)"
  by pat_completeness auto
termination
  by (relation "measure (\<lambda>(t0, st). nat (MAXBANDS - t0))") auto

definition load_all_vfos :: "radio \<Rightarrow> radio" where
  "load_all_vfos st = load_vfo_rows 0 st"

declare save_vfo_row.simps [simp del]
declare save_vfo_rows.simps [simp del]
declare load_vfo_row.simps [simp del]
declare load_vfo_rows.simps [simp del]

subsection \<open>LO calibration\<close>

lemma key_wait_shorter:
  "key_wait adcval1 adcvalcnt secs0 st = Inr (a, c, st') \<Longrightarrow>
   length (adc_in st') < length (adc_in st)"
proof (induction adcval1 adcvalcnt secs0 st rule: key_wait.induct)
  case (1 adcval1 adcvalcnt secs0 st)
  from "1.prems" obtain c0 st1 where g1: "get_adc 1 st = Inr (c0, st1)"
    by (subst (asm) key_wait.simps) (auto split: sum.splits)
  have l1: "length (adc_in st1) < length (adc_in st)"
    using get_adc_shorter [OF g1] .
  show ?case
  proof (cases "c0 \<le> 4000")
    case False
    with "1.prems" g1 have "st' = st1"
      by (subst (asm) key_wait.simps) simp
    with l1 show ?thesis by simp
  next
    case True
    with "1.prems" g1 obtain v st2 where g2: "get_adc 1 st1 = Inr (v, st2)"
      by (subst (asm) key_wait.simps) (auto split: sum.splits)
    let ?st3 = "lcd_putnumber (calc_xpos 0) (calc_ypos 5) (runsecs st2 - secs0) (- 1)
                  YELLOW backcolor 1 1 st2"
    have r: "key_wait (adcval1 + word_of_int v) (adcvalcnt + 1) secs0 ?st3 = Inr (a, c, st')"
      using "1.prems" g1 g2 True by (subst (asm) key_wait.simps) simp
    have "length (adc_in st') < length (adc_in ?st3)"
      using "1.IH" [OF g1 refl True g2 refl r] .
    moreover have "length (adc_in ?st3) < length (adc_in st1)"
      using get_adc_shorter [OF g2] by (simp add: lcd_putnumber_def)
    ultimately show ?thesis using l1 by simp
  qed
qed

lemma key_scan_adc_in: "adc_in (snd (key_scan t1 adcval0 secs0 st)) = adc_in st"
proof (induction t1 adcval0 secs0 st rule: key_scan.induct)
  case (1 t1 adcval0 secs0 st)
  show ?case
    using "1.IH"
    by (subst key_scan.simps) (simp add: Let_def lcd_putstring_def lcd_putnumber_def)
qed

lemma get_keys_shorter:
  assumes "get_keys st = Inr (k, st')"
  shows "length (adc_in st') < length (adc_in st)"
proof -
  from assms obtain a0 st1 where g1: "get_adc 1 st = Inr (a0, st1)"
    by (auto simp add: get_keys_def split: sum.splits)
  have l1: "length (adc_in st1) < length (adc_in st)"
    using get_adc_shorter [OF g1] .
  show ?thesis
  proof (cases "a0 > 4000")
    case True
    with assms g1 have "st' = st1" by (simp add: get_keys_def)
    with l1 show ?thesis by simp
  next
    case False
    with assms g1 obtain a c st2 where
      w: "key_wait 0 0 (runsecs st1) st1 = Inr (a, c, st2)"
      and s: "st' = snd (key_scan 0 (sint (word_of_int (sint a sdiv sint c) :: long)) (runsecs st1) st2)"
      by (auto simp add: get_keys_def Let_def split: sum.splits if_splits)
    have "length (adc_in st2) < length (adc_in st1)"
      using key_wait_shorter [OF w] .
    with l1 s show ?thesis by (simp add: key_scan_adc_in)
  qed
qed

text \<open>\<open>while(get_keys() != -1);\<close> waits until no key is pressed.\<close>

function wait_release :: "radio \<Rightarrow> error + radio" where
  "wait_release st =
     (case get_keys st of
        Inl e \<Rightarrow> Inl e
      | Inr (k, st1) \<Rightarrow> if k \<noteq> - 1 then wait_release st1 else Inr st1)"
  by pat_completeness auto
termination
  apply (relation "measure (\<lambda>st. length (adc_in st))")
   apply simp
  apply (auto dest!: get_keys_shorter)
  done

text \<open>The body of the tuning branch inside the calibration loop.\<close>

definition set_lo_tune :: "long \<Rightarrow> radio \<Rightarrow> long \<times> radio" where
  "set_lo_tune f_lo_tmp st =
     (if tuning st \<noteq> 0 then
        (let f1 = f_lo_tmp + pulses st * pulses st * word_of_int (tuning st);
             st1 = si5351_set_freq SYNTH_MS_0 f1 st;
             st2 = show_frequency1 0 2 st1;
             st3 = show_frequency1 f1 2 st2
         in (f1, st3\<lparr>tuning := 0\<rparr>))
      else (f_lo_tmp, st))"

lemma set_lo_tune_adc_in: "adc_in (snd (set_lo_tune f st)) = adc_in st"
  by (simp add: set_lo_tune_def Let_def si5351_set_freq_def show_frequency1_def
      lcd_putstring_def lcd_putnumber_def)

function set_lo_loop :: "int \<Rightarrow> long \<Rightarrow> radio \<Rightarrow> error + (int \<times> long \<times> radio)" where
  "set_lo_loop key f_lo_tmp st =
     (if key \<noteq> 6 \<and> key \<noteq> 7 then
        (case get_keys (snd (set_lo_tune f_lo_tmp st)) of
           Inl e \<Rightarrow> Inl e
         | Inr (k, st1) \<Rightarrow> set_lo_loop k (fst (set_lo_tune f_lo_tmp st)) st1)
      else Inr (key, f_lo_tmp, st))"
  by pat_completeness auto
termination
  apply (relation "measure (\<lambda>(key, f_lo_tmp, st). length (adc_in st))")
   apply simp
  apply (auto dest!: get_keys_shorter simp add: set_lo_tune_adc_in)
  done

declare wait_release.simps [simp del]
declare set_lo_loop.simps [simp del]

definition set_lo :: "int \<Rightarrow> radio \<Rightarrow> error + (int \<times> radio)" where
  "set_lo sb st =
     (let f_lo_tmp = f_lo st sb;
          st1 = show_sideband sb 1 st;
          st2 = show_frequency1 0 2 st1;
          st3 = show_frequency1 f_lo_tmp 2 st2
      in case wait_release st3 of
           Inl e \<Rightarrow> Inl e
         | Inr st4 \<Rightarrow>
             (case get_keys st4 of
                Inl e \<Rightarrow> Inl e
              | Inr (key0, st5) \<Rightarrow>
                  (case set_lo_loop key0 f_lo_tmp st5 of
                     Inl e \<Rightarrow> Inl e
                   | Inr (key, f_lo_tmp', st6) \<Rightarrow>
                       if key = 6 then
                         (let s1 = si5351_set_freq SYNTH_MS_0 (f_lo st6 sb) st6;
                              s2 = show_msg ''Aborted.'' LIGHTRED s1
                          in Inr (key, s2\<lparr>runsecs_msg := runsecs s2\<rparr>))
                       else if key = 7 then
                         (let s1 = st6\<lparr>f_lo := (f_lo st6)(sb := f_lo_tmp')\<rparr>;
                              s2 = eeprom_store_frequency 8 sb (f_lo s1 sb) s1;
                              s3 = show_msg ''Stored.'' LIGHTGREEN s2
                          in Inr (key, s3\<lparr>runsecs_msg := runsecs s3\<rparr>))
                       else Inr (key, st6))))"

subsection \<open>The control loop of \<open>main\<close>\<close>

text \<open>The tuning branch at the head of the loop.\<close>

definition tuning_step :: "radio \<Rightarrow> error + radio" where
  "tuning_step st =
     (if tuning st \<noteq> 0 then
        (let st1 = st\<lparr>f_vfo := (f_vfo st)(cur_band st := (f_vfo st (cur_band st))
                     (cur_vfo st := f_vfo st (cur_band st) (cur_vfo st)
                                      + pulses st * pulses st * word_of_int (tuning st)))\<rparr>
         in case set_frequency (f_vfo st1 (cur_band st1) (cur_vfo st1)) st1 of
              Inl e \<Rightarrow> Inl e
            | Inr st2 \<Rightarrow>
                (let st3 = show_frequency1 (f_vfo st2 (cur_band st2) (cur_vfo st2)) 2 st2
                 in Inr (st3\<lparr>tuning := 0\<rparr>)))
      else Inr st)"

text \<open>The statements that \<open>case 0\<close> and \<open>case 3\<close> share after changing \<open>cur_band\<close>.\<close>

definition band_changed :: "radio \<Rightarrow> error + radio" where
  "band_changed st =
     (case set_frequency (f_vfo st (cur_band st) (cur_vfo st)) st of
        Inl e \<Rightarrow> Inl e
      | Inr st1 \<Rightarrow>
          (let st2 = show_frequency1 0 2 st1;
               st3 = show_frequency1 (f_vfo st2 (cur_band st2) (cur_vfo st2)) 2 st2;
               st4 = show_band (cur_band st3) 0 st3;
               st5 = set_band_relay (cur_band st4) st4
           in Inr (eeprom_write 256 (word_of_int (cur_band st5)) st5)))"

text \<open>The \<open>switch(key)\<close> of the loop.\<close>

definition key_dispatch :: "int \<Rightarrow> radio \<Rightarrow> error + radio" where
  "key_dispatch key st =
     (if key = 0 then
        (if cur_band st < MAXBANDS - 1
         then band_changed (st\<lparr>cur_band := cur_band st + 1\<rparr>)
         else Inr st)
      else if key = 1 then
        (let st1 = st\<lparr>sideband := lnot (sideband st)\<rparr>
         in Inr (show_sideband (sideband st1) 0 st1))
      else if key = 2 then
        (let st1 = st\<lparr>cur_vfo := lnot (cur_vfo st)\<rparr>;
             st2 = eeprom_write 257 (word_of_int (cur_vfo st1)) st1;
             st3 = show_vfo (cur_vfo st2) (cur_band st2) 0 st2
         in case set_frequency (f_vfo st3 (cur_band st3) (cur_vfo st3)) st3 of
              Inl e \<Rightarrow> Inl e
            | Inr st4 \<Rightarrow> Inr (show_frequency1 (f_vfo st4 (cur_band st4) (cur_vfo st4)) 2 st4))
      else if key = 3 then
        (if cur_band st > 0
         then band_changed (st\<lparr>cur_band := cur_band st - 1\<rparr>)
         else Inr st)
      else if key = 4 then
        (let st1 = save_all_vfos st;
             st2 = show_msg ''Saved.'' LIGHTGREEN st1
         in Inr (st2\<lparr>runsecs_msg := runsecs st2\<rparr>))
      else if key = 6 \<or> key = 7 then
        (case set_lo (key - 6) st of
           Inl e \<Rightarrow> Inl e
         | Inr (k, st1) \<Rightarrow>
             (let st2 = show_frequency1 (f_vfo st1 (cur_band st1) (cur_vfo st1)) 2 st1
              in Inr (show_sideband (sideband st2) 0 st2)))
      else Inr st)"

text \<open>
  One pass through the loop up to the end of the \<open>switch\<close>. The meter, message,
  TX/RX and voltage refreshes that follow only read inputs and draw.
\<close>

definition loop_step :: "radio \<Rightarrow> error + radio" where
  "loop_step st =
     (case tuning_step st of
        Inl e \<Rightarrow> Inl e
      | Inr st1 \<Rightarrow>
          (case get_keys st1 of
             Inl e \<Rightarrow> Inl e
           | Inr (key, st2) \<Rightarrow> key_dispatch key st2))"

subsection \<open>Loading the state at boot\<close>

function lo_loop :: "int \<Rightarrow> radio \<Rightarrow> radio" where
  "lo_loop t1 st =
     (if t1 < 2 then
        (let st1 = st\<lparr>f_lo := (f_lo st)(t1 := eeprom_load_frequency 8 t1 st)\<rparr>;
             st2 = (if f_lo st1 t1 <s INTERFREQUENCY - 3000 \<or> INTERFREQUENCY + 3000 <s f_lo st1 t1
                    then st1\<lparr>f_lo := (f_lo st1)
                           (t1 := INTERFREQUENCY + word_of_int (1500 * (t1 * 2 - 1)))\<rparr>
                    else st1)
         in lo_loop (t1 + 1) (si5351_set_freq SYNTH_MS_0 (f_lo st2 t1) st2))
      else st)"
  by pat_completeness auto
termination
  by (relation "measure (\<lambda>(t1, st). nat (2 - t1))") auto

declare lo_loop.simps [simp del]

text \<open>The part of \<open>main\<close> under ``Load values''.\<close>

definition boot_load :: "radio \<Rightarrow> radio" where
  "boot_load st =
     (let st1 = st\<lparr>cur_band := uint (eeprom_read 256 st)\<rparr>;
          st2 = (if cur_band st1 < 0 \<or> cur_band st1 > 7 then st1\<lparr>cur_band := 2\<rparr> else st1);
          st3 = st2\<lparr>cur_vfo := uint (eeprom_read 257 st2)\<rparr>;
          st4 = (if cur_vfo st3 < 0 \<or> cur_vfo st3 > 1 then st3\<lparr>cur_vfo := 0\<rparr> else st3);
          st5 = load_all_vfos st4;
          st6 = st5\<lparr>sideband := pref_sideband ! nat (cur_band st5)\<rparr>
      in lo_loop 0 st6)"

text \<open>
  The first display calls of \<open>main\<close> after loading. The readouts of supply voltage
  and temperature, the meter scale and the greeting that follow them read the ADC and
  draw; the model stops before them.
\<close>

definition boot_show :: "radio \<Rightarrow> radio" where
  "boot_show st =
     (let st1 = set_band_relay (cur_band st) st;
          st2 = show_band (cur_band st1) 0 st1;
          st3 = show_vfo (cur_vfo st2) (cur_band st2) 0 st2;
          st4 = show_frequency1 (f_vfo st3 (cur_band st3) (cur_vfo st3)) 2 st3
      in show_sideband 1 0 st4)"

definition boot :: "radio \<Rightarrow> radio" where
  "boot st = boot_show (boot_load st)"

subsection \<open>The waveform of a transfer, for the proofs about the serial link\<close>

text \<open>
  These definitions are not part of the program: they describe the sequence of pin
  values that \<open>spi_send_byte\<close> and \<open>set_frequency\<close> are proved to write.
\<close>

fun spi_wave :: "32 word \<Rightarrow> bool list \<Rightarrow> 32 word list" where
  "spi_wave odr [] = []"
| "spi_wave odr (b # bs) =
     (let w1 = odr AND NOT (push_bit DDS_SCLK 1);
          w2 = (if b then w1 OR push_bit DDS_SDIO 1 else w1 AND NOT (push_bit DDS_SDIO 1));
          w3 = w2 OR push_bit DDS_SCLK 1
      in w1 # w2 # w3 # spi_wave w3 bs)"

definition byte_bits :: "32 word \<Rightarrow> bool list" where
  "byte_bits r = [bit r 7, bit r 6, bit r 5, bit r 4, bit r 3, bit r 2, bit r 1, bit r 0]"

fun spi_frame :: "32 word \<Rightarrow> 32 word list \<Rightarrow> 32 word list" where
  "spi_frame odr [] = []"
| "spi_frame odr (r # rs) =
     (let ws = spi_wave odr (byte_bits r) in ws @ spi_frame (last (odr # ws)) rs)"

definition pins_append :: "32 word list \<Rightarrow> radio \<Rightarrow> radio" where
  "pins_append ws st = st\<lparr>gpiob_odr := last (gpiob_odr st # ws), dds_pins := dds_pins st @ ws\<rparr>"

definition dds_transfer :: "32 word \<Rightarrow> 32 word \<Rightarrow> 32 word list" where
  "dds_transfer odr fword =
     (let w0 = odr AND NOT (push_bit DDS_IO_UD 1);
          ws = spi_frame w0 [0x04, drop_bit 24 (fword AND 0xFF000000),
                     drop_bit 16 (fword AND 0xFF0000), drop_bit 8 (fword AND 0xFF00),
                     fword AND 0xFF]
      in w0 # ws @ [last (w0 # ws) OR push_bit DDS_IO_UD 1])"

declare spi_frame.simps [simp del]

text \<open>
  The tuning word as the specification words it: \<open>(f + IF) * 2^32 / f_clock\<close>
  rounded to the nearest integer, with \<open>IF = 10,000,000\<close> and
  \<open>f_clock = 400,000,000\<close>.
\<close>

definition spec_tuning_word :: "nat \<Rightarrow> nat" where
  "spec_tuning_word f = (2 * ((f + 10000000) * 2 ^ 32) + 400000000) div (2 * 400000000)"

subsection \<open>The value a slot holds after loading, for the proofs about boot\<close>

text \<open>
  Not part of the program: the frequency that \<open>load_all_vfos\<close> is proved to leave
  in slot \<open>(b, v)\<close>, and the LO frequency that the boot code is proved to leave for
  sideband \<open>s\<close>, both as functions of the EEPROM content.
\<close>

definition slot_value :: "radio \<Rightarrow> int \<Rightarrow> int \<Rightarrow> long" where
  "slot_value st b v =
     (if is_freq_ok (eeprom_load_frequency b v st) b then eeprom_load_frequency b v st
      else f_vfo0 ! nat b ! nat v)"

definition lo_value :: "radio \<Rightarrow> int \<Rightarrow> long" where
  "lo_value st s =
     (if eeprom_load_frequency 8 s st <s INTERFREQUENCY - 3000
         \<or> INTERFREQUENCY + 3000 <s eeprom_load_frequency 8 s st
      then INTERFREQUENCY + word_of_int (1500 * (s * 2 - 1))
      else eeprom_load_frequency 8 s st)"

section \<open>Persistent store: the frequency round trip\<close>

lemma mask_byte: "(0xFF :: 'a::len word) = mask 8"
  by (simp add: mask_eq_exp_minus_1)

lemma mask_high_byte: "(0xFF00 :: uint16) = push_bit 8 (mask 8)"
  by (simp add: mask_eq_exp_minus_1)

lemma i2c_address_write: "i2c_address (ucast (drop_bit 8 a)) (ucast (a AND 0xFF)) = a"
  unfolding i2c_address_def mask_byte
  by (rule bit_word_eqI) (auto simp add: bit_simps)

lemma i2c_address_read: "i2c_address (ucast (drop_bit 8 (a AND 0xFF00))) (ucast (a AND 0xFF)) = a"
  unfolding i2c_address_def mask_byte mask_high_byte
  by (rule bit_word_eqI) (auto simp add: bit_simps)

lemma eeprom_write_eeprom: "eeprom (eeprom_write a v st) = (eeprom st)(a := v)"
  unfolding eeprom_write_def Let_def i2c_address_write by simp

lemma eeprom_read_eeprom: "eeprom_read a st = eeprom st a"
  unfolding eeprom_read_def Let_def i2c_address_read by simp

lemma hiword_push: "push_bit 16 (signed_drop_bit 16 (f::long)) = push_bit 16 (drop_bit 16 f)"
  by (rule bit_word_eqI) (auto simp add: bit_simps)

lemma loword_eq: "(f::long) - push_bit 16 (signed_drop_bit 16 f) = take_bit 16 f"
proof -
  have "f = push_bit 16 (drop_bit 16 f) + take_bit 16 f"
    by (simp add: bits_ident)
  then show ?thesis
    unfolding hiword_push by (metis add_diff_cancel_left')
qed

lemma take_bit_sub_push_int: "take_bit 8 ((a::int) - push_bit 8 b) = take_bit 8 a"
proof -
  have "take_bit 8 (a - push_bit 8 b) = take_bit 8 (take_bit 8 a - take_bit 8 (push_bit 8 b))"
    by (rule take_bit_diff [symmetric])
  also have "take_bit 8 (push_bit 8 b) = 0"
    by (simp add: take_bit_push_bit)
  finally show ?thesis by simp
qed

lemma ucast_sub_push: "(ucast ((x::long) - push_bit 8 y) :: uint8) = ucast x"
  by transfer (simp add: take_bit_sub_push_int)

lemma hmsb_eq: "(ucast (signed_drop_bit 8 (signed_drop_bit 16 (f::long))) :: uint8) = ucast (drop_bit 24 f)"
  by (rule bit_word_eqI) (auto simp add: bit_simps ac_simps)

lemma hlsb_eq: "(ucast (signed_drop_bit 16 (f::long)) :: uint8) = ucast (drop_bit 16 f)"
  by (rule bit_word_eqI) (auto simp add: bit_simps ac_simps)

lemma lmsb_eq: "(ucast (signed_drop_bit 8 (take_bit 16 (f::long))) :: uint8) = ucast (drop_bit 8 f)"
  by (rule bit_word_eqI) (auto simp add: bit_simps ac_simps)

lemma llsb_eq: "(ucast (take_bit 16 (f::long)) :: uint8) = ucast f"
  by (rule bit_word_eqI) (auto simp add: bit_simps ac_simps)

lemma ucast_byte: "(ucast (ucast (x::long) :: uint8) :: long) = take_bit 8 x"
  by (rule bit_word_eqI) (auto simp add: bit_simps ac_simps)

lemma top_byte: "take_bit 8 (drop_bit 24 (f::long)) = drop_bit 24 f"
  by (rule bit_word_eqI) (auto simp add: bit_simps dest: bit_imp_le_length)

lemma big_endian_sum:
  "16777216 * drop_bit 24 f + 65536 * take_bit 8 (drop_bit 16 f)
     + 256 * take_bit 8 (drop_bit 8 f) + take_bit 8 f = (f::long)"
proof -
  have a: "f = push_bit 8 (drop_bit 8 f) + take_bit 8 f"
    by (simp add: bits_ident)
  have b: "drop_bit 8 f = push_bit 8 (drop_bit 16 f) + take_bit 8 (drop_bit 8 f)"
    using bits_ident [of 8 "drop_bit 8 f"] by (simp add: drop_bit_drop_bit)
  have c: "drop_bit 16 f = push_bit 8 (drop_bit 24 f) + take_bit 8 (drop_bit 16 f)"
    using bits_ident [of 8 "drop_bit 16 f"] by (simp add: drop_bit_drop_bit)
  have "f = push_bit 8 (push_bit 8 (push_bit 8 (drop_bit 24 f) + take_bit 8 (drop_bit 16 f))
              + take_bit 8 (drop_bit 8 f)) + take_bit 8 f"
    using a b c by simp
  then show ?thesis
    by (simp add: push_bit_eq_mult algebra_simps)
qed

lemma load_after_store_bytes:
  "eeprom_load_frequency band vfo (eeprom_store_frequency band vfo f st)
     = 16777216 * ucast (ucast (drop_bit 24 f) :: uint8)
       + 65536 * ucast (ucast (drop_bit 16 f) :: uint8)
       + 256 * ucast (ucast (drop_bit 8 f) :: uint8)
       + ucast (ucast f :: uint8)"
  unfolding eeprom_load_frequency_def eeprom_store_frequency_def Let_def
    eeprom_read_eeprom eeprom_write_eeprom loword_eq ucast_sub_push
    hmsb_eq hlsb_eq lmsb_eq llsb_eq
  by simp

text \<open>
  C2. Storing a frequency with \<open>eeprom_store_frequency\<close> and loading the same slot
  with \<open>eeprom_load_frequency\<close> gives the frequency back, for each of the \<open>2^32\<close>
  values of a 32-bit frequency, in every band and VFO slot.
\<close>

theorem eeprom_frequency_roundtrip:
  "eeprom_load_frequency band vfo (eeprom_store_frequency band vfo f st) = f"
  unfolding load_after_store_bytes ucast_byte top_byte
  by (rule big_endian_sum)

section \<open>Keypad decoder\<close>

lemma key_scan_band0:
  "270 < v \<Longrightarrow> v < 470 \<Longrightarrow>
   fst (key_scan 0 v secs0 st) = (if sint (runsecs st - secs0) < 2 then 0 else 6)"
  by (simp add: key_scan.simps key_value_def Let_def lcd_putstring_def lcd_putnumber_def
      word_sless_alt)

lemma key_scan_1800:
  "fst (key_scan 0 1800 secs0 st) = (if sint (runsecs st - secs0) < 2 then 4 else 10)"
  by (simp add: key_scan.simps key_value_def Let_def lcd_putstring_def lcd_putnumber_def
      word_sless_alt)

lemma key_scan_no_match:
  "\<forall>k \<in> set key_value. \<not> (k - 100 < v \<and> v < k + 100) \<Longrightarrow> key_scan 0 v secs0 st = (-1, st)"
  by (simp add: key_scan.simps key_value_def Let_def)

lemma get_keys_pressed:
  assumes "get_adc 1 st = Inr (a0, st1)" and "a0 \<le> 4000"
    and "key_wait 0 0 (runsecs st1) st1 = Inr (adcval1, adcvalcnt, st2)"
    and "adcvalcnt \<noteq> 0"
  shows "get_keys st =
           Inr (key_scan 0 (sint (word_of_int (sint adcval1 sdiv sint adcvalcnt) :: long))
                  (runsecs st1) st2)"
  using assms by (simp add: get_keys_def)

text \<open>
  C1, as stated, fails on the code. The comparison with a key voltage is strict on both
  sides, so the averages 270 and 470, which lie exactly 100 counts from 370, match no
  key; and 1800 lies less than 100 counts from the fifth key voltage 1863, so a key held
  at 1800 is reported as key 4, not as ``no key''. Here the key is held at 1800 for
  three samples and then released (4095).
\<close>

theorem get_keys_1800_counterexample:
  "map_sum id fst (get_keys (reset_state\<lparr>adc_in := [Adc 1800, Adc 1800, Adc 1800, Adc 4095]\<rparr>))
     = Inr 4
   \<and> map_sum id fst (get_keys (reset_state\<lparr>adc_in := [Adc 270, Adc 270, Adc 270, Adc 4095]\<rparr>))
     = Inr (- 1)"
  by (simp add: get_keys_def get_adc_def reset_state_def key_wait.simps lcd_putnumber_def
      key_scan.simps key_value_def Let_def lcd_putstring_def word_sless_alt
      signed_divide_int_def)

text \<open>
  C1, amended. Let a keypad read see the key pressed (first sample at most 4000), let
  \<open>v\<close> be the average that \<open>get_keys\<close> computes over the samples of the press and
  \<open>d\<close> the number of ticks between the first sample and the release. If \<open>v\<close> lies
  strictly within 100 counts of 370, the decoder returns 0 when \<open>d < 2\<close> and 6
  otherwise. If \<open>v = 1800\<close>, it returns 4 when \<open>d < 2\<close> and 10 otherwise. It returns
  the sentinel \<open>-1\<close> when \<open>v\<close> lies strictly within 100 counts of none of the six
  key voltages.
\<close>

theorem get_keys_classification:
  assumes "get_adc 1 st = Inr (a0, st1)" and "a0 \<le> 4000"
    and "key_wait 0 0 (runsecs st1) st1 = Inr (adcval1, adcvalcnt, st2)"
    and "adcvalcnt \<noteq> 0"
    and "v = sint (word_of_int (sint adcval1 sdiv sint adcvalcnt) :: long)"
    and "d = sint (runsecs st2 - runsecs st1)"
  shows "(270 < v \<and> v < 470 \<longrightarrow> map_sum id fst (get_keys st) = Inr (if d < 2 then 0 else 6))
       \<and> (v = 1800 \<longrightarrow> map_sum id fst (get_keys st) = Inr (if d < 2 then 4 else 10))
       \<and> ((\<forall>k \<in> set key_value. \<not> (k - 100 < v \<and> v < k + 100))
            \<longrightarrow> map_sum id fst (get_keys st) = Inr (- 1))"
proof -
  have g: "get_keys st = Inr (key_scan 0 v (runsecs st1) st2)"
    using get_keys_pressed [OF assms(1-4)] assms(5) by simp
  have "270 < v \<and> v < 470 \<longrightarrow> map_sum id fst (get_keys st) = Inr (if d < 2 then 0 else 6)"
    using key_scan_band0 [of v "runsecs st1" st2] assms(6) by (simp add: g)
  moreover have "v = 1800 \<longrightarrow> map_sum id fst (get_keys st) = Inr (if d < 2 then 4 else 10)"
    using key_scan_1800 [of "runsecs st1" st2] assms(6) by (simp add: g)
  moreover have "(\<forall>k \<in> set key_value. \<not> (k - 100 < v \<and> v < k + 100))
      \<longrightarrow> map_sum id fst (get_keys st) = Inr (- 1)"
    using key_scan_no_match [of v "runsecs st1" st2] by (simp add: g)
  ultimately show ?thesis by blast
qed

lemmas key_eval = get_adc_def reset_state_def key_wait.simps TIM2_IRQHandler_def
  lcd_putnumber_def

theorem get_keys_classification_witness:
  "map_sum id fst (get_keys (reset_state\<lparr>adc_in :=
      [Adc 370, Adc 370, Adc 368, Tim2, Tim2, Adc 372, Adc 371, Adc 4095]\<rparr>)) = Inr 6
   \<and> map_sum id fst (get_keys (reset_state\<lparr>adc_in :=
      [Adc 1800, Adc 1800, Adc 1800, Adc 4095]\<rparr>)) = Inr 4
   \<and> map_sum id fst (get_keys (reset_state\<lparr>adc_in :=
      [Adc 1000, Adc 1000, Adc 1000, Adc 4095]\<rparr>)) = Inr (- 1)"
proof -
  let ?a = "reset_state\<lparr>adc_in :=
    [Adc 370, Adc 370, Adc 368, Tim2, Tim2, Adc 372, Adc 371, Adc 4095]\<rparr>"
  let ?a1 = "reset_state\<lparr>adc_in :=
    [Adc 370, Adc 368, Tim2, Tim2, Adc 372, Adc 371, Adc 4095]\<rparr>"
  let ?a2 = "snd (snd (projr (key_wait 0 0 0 ?a1)))"
  have a1: "get_adc 1 ?a = Inr (370, ?a1)"
    by (simp add: key_eval)
  have a2: "key_wait 0 0 (runsecs ?a1) ?a1 = Inr (739, 2, ?a2)"
    by (simp add: key_eval)
  have a3: "runsecs ?a2 = 2"
    by (simp add: key_eval)
  have a4: "runsecs ?a1 = 0"
    by (simp add: key_eval)
  have a: "map_sum id fst (get_keys ?a) = Inr 6"
    using get_keys_classification [OF a1 _ a2 _ refl refl]
    by (simp add: a3 a4 signed_divide_int_def)
  let ?b = "reset_state\<lparr>adc_in := [Adc 1800, Adc 1800, Adc 1800, Adc 4095]\<rparr>"
  let ?b1 = "reset_state\<lparr>adc_in := [Adc 1800, Adc 1800, Adc 4095]\<rparr>"
  let ?b2 = "snd (snd (projr (key_wait 0 0 0 ?b1)))"
  have b1: "get_adc 1 ?b = Inr (1800, ?b1)"
    by (simp add: key_eval)
  have b2: "key_wait 0 0 (runsecs ?b1) ?b1 = Inr (1800, 1, ?b2)"
    by (simp add: key_eval)
  have b3: "runsecs ?b2 = 0"
    by (simp add: key_eval)
  have b4: "runsecs ?b1 = 0"
    by (simp add: key_eval)
  have b: "map_sum id fst (get_keys ?b) = Inr 4"
    using get_keys_classification [OF b1 _ b2 _ refl refl]
    by (simp add: b3 b4 signed_divide_int_def)
  let ?c = "reset_state\<lparr>adc_in := [Adc 1000, Adc 1000, Adc 1000, Adc 4095]\<rparr>"
  let ?c1 = "reset_state\<lparr>adc_in := [Adc 1000, Adc 1000, Adc 4095]\<rparr>"
  let ?c2 = "snd (snd (projr (key_wait 0 0 0 ?c1)))"
  have c1: "get_adc 1 ?c = Inr (1000, ?c1)"
    by (simp add: key_eval)
  have c2: "key_wait 0 0 (runsecs ?c1) ?c1 = Inr (1000, 1, ?c2)"
    by (simp add: key_eval)
  have c: "map_sum id fst (get_keys ?c) = Inr (- 1)"
    using get_keys_classification [OF c1 _ c2 _ refl refl]
    by (simp add: signed_divide_int_def key_value_def)
  from a b c show ?thesis by blast
qed

section \<open>DDS synthesizer: the serial transfer of the tuning word\<close>

lemma spi_send_loop_wave:
  "t1 \<le> 8 \<Longrightarrow>
   spi_send_loop t1 (drop_bit t1 x0) sbyte st =
     (let ws = spi_wave (gpiob_odr st) (map (\<lambda>i. sbyte AND drop_bit i x0 \<noteq> 0) [t1..<8])
      in st\<lparr>gpiob_odr := last (gpiob_odr st # ws), dds_pins := dds_pins st @ ws\<rparr>)"
proof (induction "8 - t1" arbitrary: t1 st)
  case 0
  then have "t1 = 8" by simp
  then show ?case by (simp add: spi_send_loop.simps)
next
  case (Suc n)
  then have lt: "t1 < 8" and n: "n = 8 - (t1 + 1)" and le: "t1 + 1 \<le> 8" by auto
  have up: "[t1..<8] = t1 # [t1 + 1..<8]"
    using lt by (simp add: upt_conv_Cons)
  have dd: "drop_bit 1 (drop_bit t1 x0) = drop_bit (t1 + 1) x0"
    by (simp add: drop_bit_drop_bit)
  show ?case
    apply (subst spi_send_loop.simps)
    apply (simp only: lt if_True Let_def dd)
    apply (subst Suc.hyps(1) [OF n le])
    apply (simp add: up gpiob_write_def Let_def)
    done
qed

lemma dds_sample_wave: "dds_sample prev (spi_wave odr bs) = bs"
  by (induction bs arbitrary: prev odr)
    (simp_all add: Let_def DDS_SCLK_def DDS_SDIO_def bit_simps)

lemma dds_sample_append:
  "dds_sample prev (xs @ ys) = dds_sample prev xs @ dds_sample (last (prev # xs)) ys"
  by (induction xs arbitrary: prev) simp_all

lemma strobe_wave:
  "bit odr DDS_IO_UD = s \<Longrightarrow> list_all (\<lambda>w. bit w DDS_IO_UD = s) (spi_wave odr bs)"
proof (induction bs arbitrary: odr)
  case Nil
  then show ?case by simp
next
  case (Cons b bs)
  let ?w3 = "(if b then odr AND NOT (push_bit DDS_SCLK 1) OR push_bit DDS_SDIO 1
      else (odr AND NOT (push_bit DDS_SCLK 1)) AND NOT (push_bit DDS_SDIO 1)) OR push_bit DDS_SCLK 1"
  have w3: "bit ?w3 DDS_IO_UD = s"
    using Cons.prems by (cases b) (simp_all add: DDS_SCLK_def DDS_SDIO_def DDS_IO_UD_def bit_simps)
  have rest: "list_all (\<lambda>w. bit w DDS_IO_UD = s) (spi_wave ?w3 bs)"
    by (rule Cons.IH [OF w3])
  show ?case
    using Cons.prems rest
    by (cases b) (simp_all add: Let_def DDS_SCLK_def DDS_SDIO_def DDS_IO_UD_def bit_simps)
qed

lemma list_all_last: "list_all P (x # xs) \<Longrightarrow> P (last (x # xs))"
  by (induction xs arbitrary: x) auto

lemma upt8: "[0..<8] = [0,1,2,3,4,5,6,7]"
  by (simp add: upt_rec)

lemma and_masks:
  fixes r :: "32 word"
  shows "(r AND 128 \<noteq> 0) = bit r 7" "(r AND 64 \<noteq> 0) = bit r 6"
    "(r AND 32 \<noteq> 0) = bit r 5" "(r AND 16 \<noteq> 0) = bit r 4"
    "(r AND 8 \<noteq> 0) = bit r 3" "(r AND 4 \<noteq> 0) = bit r 2"
    "(r AND 2 \<noteq> 0) = bit r 1" "(r AND 1 \<noteq> 0) = bit r 0"
  using bit_iff_and_push_bit_not_eq_0 [of r 7] bit_iff_and_push_bit_not_eq_0 [of r 6]
    bit_iff_and_push_bit_not_eq_0 [of r 5] bit_iff_and_push_bit_not_eq_0 [of r 4]
    bit_iff_and_push_bit_not_eq_0 [of r 3] bit_iff_and_push_bit_not_eq_0 [of r 2]
    bit_iff_and_push_bit_not_eq_0 [of r 1] bit_iff_and_push_bit_not_eq_0 [of r 0]
  by simp_all

lemma spi_bits:
  "map (\<lambda>i. (r::32 word) AND drop_bit i (push_bit 7 1) \<noteq> 0) [0..<8]
     = [bit r 7, bit r 6, bit r 5, bit r 4, bit r 3, bit r 2, bit r 1, bit r 0]"
  by (simp add: upt8 and_masks)

lemma horner_byte:
  "horner_sum of_bool 2 [bit r 0, bit r 1, bit r 2, bit r 3, bit r 4, bit r 5, bit r 6, bit r 7]
     = (ucast (r::32 word) :: uint8)"
proof (rule bit_word_eqI)
  fix n
  assume "n < LENGTH(8)"
  then have n: "n < 8" by simp
  then consider "n = 0" | "n = 1" | "n = 2" | "n = 3" | "n = 4" | "n = 5" | "n = 6" | "n = 7"
    by linarith
  then show "bit (horner_sum of_bool 2 [bit r 0, bit r 1, bit r 2, bit r 3, bit r 4, bit r 5,
        bit r 6, bit r 7] :: uint8) n = bit (ucast r :: uint8) n"
    unfolding bit_horner_sum_bit_word_iff
    by cases (simp_all add: bit_simps)
qed

lemma spi_send_byte_wave:
  "spi_send_byte r st = pins_append (spi_wave (gpiob_odr st) (byte_bits r)) st"
  using spi_send_loop_wave [of 0 "push_bit 7 1" r st]
  by (simp add: spi_send_byte_def spi_bits byte_bits_def pins_append_def Let_def
      del: push_bit_of_1)

lemma pins_append_append:
  "pins_append ys (pins_append xs st) = pins_append (xs @ ys) st"
  by (simp add: pins_append_def)

lemma gpiob_odr_pins_append [simp]:
  "gpiob_odr (pins_append ws st) = last (gpiob_odr st # ws)"
  by (simp add: pins_append_def)

lemma gpiob_write_pins: "gpiob_write w st = pins_append [w] st"
  by (simp add: gpiob_write_def pins_append_def)

lemma fword_loop_unrolled:
  "fword_loop 0 24 0xFF000000 fword st =
     spi_send_byte (fword AND 0xFF)
       (spi_send_byte (drop_bit 8 (fword AND 0xFF00))
         (spi_send_byte (drop_bit 16 (fword AND 0xFF0000))
           (spi_send_byte (drop_bit 24 (fword AND 0xFF000000)) st)))"
  by (simp add: fword_loop.simps Let_def)

lemma last_pins [simp]: "last (last (x # xs) # ys) = last (x # xs @ ys)"
  by (cases ys) simp_all

lemma spi_frame_send:
  "foldl (\<lambda>s r. spi_send_byte r s) st rs = pins_append (spi_frame (gpiob_odr st) rs) st"
proof (induction rs arbitrary: st)
  case Nil
  show ?case by (simp add: pins_append_def spi_frame.simps)
next
  case (Cons r rs)
  have "foldl (\<lambda>s r. spi_send_byte r s) st (r # rs)
          = foldl (\<lambda>s r. spi_send_byte r s) (spi_send_byte r st) rs"
    by simp
  also have "\<dots> = pins_append (spi_frame (gpiob_odr (spi_send_byte r st)) rs) (spi_send_byte r st)"
    by (rule Cons.IH)
  also have "\<dots> = pins_append (spi_frame (gpiob_odr st) (r # rs)) st"
    by (simp add: spi_send_byte_wave pins_append_append spi_frame.simps Let_def del: last.simps)
  finally show ?case .
qed

lemma set_frequency_fold:
  "set_frequency frequency st =
    (case dds_fword (frequency + INTERFREQUENCY) of
       Inl e \<Rightarrow> Inl e
     | Inr fword \<Rightarrow>
        (let st3 = foldl (\<lambda>s r. spi_send_byte r s)
                     (gpiob_write (gpiob_odr st AND NOT (push_bit DDS_IO_UD 1)) st)
                     [0x04, drop_bit 24 (fword AND 0xFF000000),
                      drop_bit 16 (fword AND 0xFF0000), drop_bit 8 (fword AND 0xFF00),
                      fword AND 0xFF]
         in Inr (gpiob_write (gpiob_odr st3 OR push_bit DDS_IO_UD 1) st3)))"
  unfolding set_frequency_def Let_def fword_loop_unrolled
  by (simp only: foldl_Cons foldl_Nil)

lemma set_frequency_pins:
  assumes "dds_fword (frequency + INTERFREQUENCY) = Inr fword"
  shows "set_frequency frequency st = Inr (pins_append (dds_transfer (gpiob_odr st) fword) st)"
  unfolding set_frequency_fold assms sum.case Let_def spi_frame_send gpiob_write_pins
    pins_append_append gpiob_odr_pins_append dds_transfer_def
  by (simp del: spi_frame.simps push_bit_of_1)

lemma dds_sample_frame:
  "dds_sample prev (spi_frame odr rs) = concat (map byte_bits rs)"
proof (induction rs arbitrary: prev odr)
  case Nil
  show ?case by (simp add: spi_frame.simps)
next
  case (Cons r rs)
  show ?case
    by (simp add: spi_frame.simps Let_def dds_sample_append dds_sample_wave Cons.IH del: last.simps)
qed

lemma strobe_frame:
  "bit odr DDS_IO_UD = s \<Longrightarrow> list_all (\<lambda>w. bit w DDS_IO_UD = s) (spi_frame odr rs)"
proof (induction rs arbitrary: odr)
  case Nil
  show ?case by (simp add: spi_frame.simps)
next
  case (Cons r rs)
  have a: "list_all (\<lambda>w. bit w DDS_IO_UD = s) (spi_wave odr (byte_bits r))"
    by (rule strobe_wave [OF Cons.prems])
  then have "list_all (\<lambda>w. bit w DDS_IO_UD = s) (odr # spi_wave odr (byte_bits r))"
    using Cons.prems by simp
  then have "bit (last (odr # spi_wave odr (byte_bits r))) DDS_IO_UD = s"
    by (rule list_all_last)
  then have "list_all (\<lambda>w. bit w DDS_IO_UD = s)
      (spi_frame (last (odr # spi_wave odr (byte_bits r))) rs)"
    by (rule Cons.IH)
  with a show ?case
    by (simp add: spi_frame.simps Let_def del: last.simps)
qed

lemma dds_sample_transfer:
  "dds_sample odr (dds_transfer odr fword) =
     byte_bits 0x04 @ byte_bits (drop_bit 24 (fword AND 0xFF000000))
       @ byte_bits (drop_bit 16 (fword AND 0xFF0000)) @ byte_bits (drop_bit 8 (fword AND 0xFF00))
       @ byte_bits (fword AND 0xFF)"
proof -
  define w0 where "w0 = odr AND NOT (push_bit DDS_IO_UD 1)"
  define rs where "rs = [0x04, drop_bit 24 (fword AND 0xFF000000),
                     drop_bit 16 (fword AND 0xFF0000), drop_bit 8 (fword AND 0xFF00),
                     fword AND 0xFF]"
  define l where "l = last (w0 # spi_frame w0 rs)"
  have t: "dds_transfer odr fword = w0 # spi_frame w0 rs @ [l OR push_bit DDS_IO_UD 1]"
    by (simp add: dds_transfer_def w0_def rs_def l_def Let_def del: last.simps push_bit_of_1)
  have e0: "bit w0 DDS_SCLK = bit odr DDS_SCLK"
    by (simp add: w0_def DDS_SCLK_def DDS_IO_UD_def bit_simps)
  have e1: "bit (l OR push_bit DDS_IO_UD 1) DDS_SCLK = bit l DDS_SCLK"
    by (simp add: DDS_SCLK_def DDS_IO_UD_def bit_simps)
  have "dds_sample odr (dds_transfer odr fword) = dds_sample w0 (spi_frame w0 rs @ [l OR push_bit DDS_IO_UD 1])"
    unfolding t using e0 by simp
  also have "\<dots> = dds_sample w0 (spi_frame w0 rs) @ dds_sample l [l OR push_bit DDS_IO_UD 1]"
    unfolding dds_sample_append l_def ..
  also have "dds_sample l [l OR push_bit DDS_IO_UD 1] = []"
    using e1 by simp
  finally show ?thesis
    by (simp add: dds_sample_frame rs_def)
qed

lemma strobe_transfer:
  "list_all (\<lambda>w. \<not> bit w DDS_IO_UD) (butlast (dds_transfer odr fword))
   \<and> bit (last (dds_transfer odr fword)) DDS_IO_UD"
proof -
  define w0 where "w0 = odr AND NOT (push_bit DDS_IO_UD 1)"
  define rs where "rs = [0x04, drop_bit 24 (fword AND 0xFF000000),
                     drop_bit 16 (fword AND 0xFF0000), drop_bit 8 (fword AND 0xFF00),
                     fword AND 0xFF]"
  define l where "l = last (w0 # spi_frame w0 rs)"
  have t: "dds_transfer odr fword = (w0 # spi_frame w0 rs) @ [l OR push_bit DDS_IO_UD 1]"
    by (simp add: dds_transfer_def w0_def rs_def l_def Let_def del: last.simps push_bit_of_1)
  have w0: "bit w0 DDS_IO_UD = False"
    by (simp add: w0_def DDS_IO_UD_def bit_simps)
  have "list_all (\<lambda>w. bit w DDS_IO_UD = False) (spi_frame w0 rs)"
    by (rule strobe_frame [OF w0])
  then have a: "list_all (\<lambda>w. \<not> bit w DDS_IO_UD) (w0 # spi_frame w0 rs)"
    using w0 by simp
  have b: "bit (l OR push_bit DDS_IO_UD 1) DDS_IO_UD"
    by (simp add: DDS_IO_UD_def bit_simps)
  show ?thesis
    unfolding t using a b by (simp only: butlast_snoc last_snoc simp_thms)
qed

lemma result_bytes:
  fixes fword :: "32 word"
  shows "(ucast (drop_bit 24 (fword AND 0xFF000000)) :: uint8) = ucast (drop_bit 24 fword)"
    and "(ucast (drop_bit 16 (fword AND 0xFF0000)) :: uint8) = ucast (drop_bit 16 fword)"
    and "(ucast (drop_bit 8 (fword AND 0xFF00)) :: uint8) = ucast (drop_bit 8 fword)"
    and "(ucast (fword AND 0xFF) :: uint8) = ucast fword"
proof -
  have m: "(0xFF000000 :: 32 word) = push_bit 24 (mask 8)" "(0xFF0000 :: 32 word) = push_bit 16 (mask 8)"
    "(0xFF00 :: 32 word) = push_bit 8 (mask 8)" "(0xFF :: 32 word) = mask 8"
    by (simp_all add: mask_eq_exp_minus_1)
  show "(ucast (drop_bit 24 (fword AND 0xFF000000)) :: uint8) = ucast (drop_bit 24 fword)"
    unfolding m by (rule bit_word_eqI) (auto simp add: bit_simps)
  show "(ucast (drop_bit 16 (fword AND 0xFF0000)) :: uint8) = ucast (drop_bit 16 fword)"
    unfolding m by (rule bit_word_eqI) (auto simp add: bit_simps)
  show "(ucast (drop_bit 8 (fword AND 0xFF00)) :: uint8) = ucast (drop_bit 8 fword)"
    unfolding m by (rule bit_word_eqI) (auto simp add: bit_simps)
  show "(ucast (fword AND 0xFF) :: uint8) = ucast fword"
    unfolding m by (rule bit_word_eqI) (auto simp add: bit_simps)
qed

lemma dds_bytes_transfer:
  "dds_bytes (dds_sample odr (dds_transfer odr fword)) =
     [0x04, ucast (drop_bit 24 fword), ucast (drop_bit 16 fword), ucast (drop_bit 8 fword),
      ucast fword]"
  unfolding dds_sample_transfer byte_bits_def append.simps dds_bytes.simps horner_byte
    result_bytes
  by simp

lemma set_frequency_link:
  assumes "dds_fword (frequency + INTERFREQUENCY) = Inr fword"
  shows "\<exists>st'. set_frequency frequency st = Inr st'
     \<and> dds_bytes (dds_sample (gpiob_odr st) (dds_written st st')) =
         [0x04, ucast (drop_bit 24 fword), ucast (drop_bit 16 fword), ucast (drop_bit 8 fword),
          ucast fword]
     \<and> length (dds_sample (gpiob_odr st) (dds_written st st')) = 40
     \<and> list_all (\<lambda>w. \<not> bit w DDS_IO_UD) (butlast (dds_written st st'))
     \<and> bit (last (dds_written st st')) DDS_IO_UD"
proof -
  let ?st' = "pins_append (dds_transfer (gpiob_odr st) fword) st"
  have w: "dds_written st ?st' = dds_transfer (gpiob_odr st) fword"
    by (simp add: dds_written_def pins_append_def)
  have a: "set_frequency frequency st = Inr ?st'"
    by (rule set_frequency_pins [OF assms])
  have b: "dds_bytes (dds_sample (gpiob_odr st) (dds_written st ?st')) =
         [0x04, ucast (drop_bit 24 fword), ucast (drop_bit 16 fword), ucast (drop_bit 8 fword),
          ucast fword]"
    unfolding w by (rule dds_bytes_transfer)
  have c: "length (dds_sample (gpiob_odr st) (dds_written st ?st')) = 40"
    unfolding w dds_sample_transfer by (simp add: byte_bits_def)
  have d: "list_all (\<lambda>w. \<not> bit w DDS_IO_UD) (butlast (dds_written st ?st'))
     \<and> bit (last (dds_written st ?st')) DDS_IO_UD"
    unfolding w by (rule strobe_transfer)
  from a b c d show ?thesis by blast
qed

text \<open>
  \<open>DDS_SCALE / 2^49\<close> is a binary64 number (53 significant bits) and lies within half
  a unit in the last place, \<open>2^-50\<close>, of the decimal literal 10.73741824.
\<close>

lemma DDS_SCALE_nearest:
  "2 ^ 52 \<le> DDS_SCALE \<and> DDS_SCALE < 2 ^ 53
   \<and> 2 * \<bar>int DDS_SCALE * 100000000 - 1073741824 * 2 ^ 49\<bar> \<le> 100000000"
  by (simp add: DDS_SCALE_def)

lemma unat_7120000: "unat (7120000 + INTERFREQUENCY) = 17120000"
  by (simp add: INTERFREQUENCY_def)

lemma bit_length_7120000: "bit_length (17120000 * DDS_SCALE) = 77"
  by (simp add: DDS_SCALE_def bit_length.simps)

lemma round_7120000: "round_binary64 (17120000 * DDS_SCALE) = 6168130049646631 * 2 ^ 24"
  unfolding round_binary64_def bit_length_7120000 Let_def
  by (simp add: DDS_SCALE_def)

lemma fword_7120000: "dds_fword (7120000 + INTERFREQUENCY) = Inr 183824600"
  unfolding dds_fword_def unat_7120000 round_7120000 Let_def
  by simp

text \<open>Below 400 MHz the conversion of the product to \<open>unsigned long\<close> is defined.\<close>

lemma bit_length_lower: "n \<noteq> 0 \<Longrightarrow> 2 ^ (bit_length n - 1) \<le> n"
proof (induction n rule: bit_length.induct)
  case (1 n)
  show ?case
  proof (cases "n div 2 = 0")
    case True
    with "1.prems" have "n = 1" by (auto simp add: div_eq_0_iff)
    then show ?thesis by (simp add: bit_length.simps)
  next
    case False
    then have ih: "2 ^ (bit_length (n div 2) - 1) \<le> n div 2"
      using "1.IH" "1.prems" by simp
    have pos: "bit_length (n div 2) \<noteq> 0"
      using False by (subst bit_length.simps) simp
    have "bit_length n = Suc (bit_length (n div 2))"
      using "1.prems" by (subst bit_length.simps) simp
    then have "2 ^ (bit_length n - 1) = 2 * 2 ^ (bit_length (n div 2) - 1)"
      using pos by (cases "bit_length (n div 2)") simp_all
    also have "\<dots> \<le> 2 * (n div 2)"
      using ih by simp
    also have "\<dots> \<le> n" by simp
    finally show ?thesis .
  qed
qed

lemma round_binary64_upper: "round_binary64 n * 2 ^ 52 \<le> n * 2 ^ 52 + n"
proof (cases "bit_length n \<le> 53")
  case True
  then show ?thesis by (simp add: round_binary64_def)
next
  case False
  define s where "s = bit_length n - 53"
  define q where "q = n div 2 ^ s"
  have n0: "n \<noteq> 0"
  proof
    assume "n = 0"
    then have "bit_length n = 0" by (simp add: bit_length.simps)
    with False show False by simp
  qed
  have "round_binary64 n \<le> (q + 1) * 2 ^ s"
    using False by (simp add: round_binary64_def Let_def s_def q_def)
  also have "\<dots> = q * 2 ^ s + 2 ^ s" by (simp add: algebra_simps)
  also have "q * 2 ^ s \<le> n"
    by (simp add: q_def)
  finally have r: "round_binary64 n \<le> n + 2 ^ s" by simp
  have "s + 52 = bit_length n - 1"
    using False by (simp add: s_def)
  then have "(2::nat) ^ s * 2 ^ 52 = 2 ^ (bit_length n - 1)"
    by (simp only: flip: power_add)
  also have "\<dots> \<le> n"
    by (rule bit_length_lower [OF n0])
  finally have t: "(2::nat) ^ s * 2 ^ 52 \<le> n" .
  from r have "round_binary64 n * 2 ^ 52 \<le> (n + 2 ^ s) * 2 ^ 52"
    by (rule mult_le_mono1)
  also have "\<dots> = n * 2 ^ 52 + 2 ^ s * 2 ^ 52"
    by (rule add_mult_distrib)
  also have "\<dots> \<le> n * 2 ^ 52 + n"
    using t by (rule add_left_mono)
  finally show ?thesis .
qed

lemma dds_fword_total:
  assumes "unat n < 400000000"
  shows "\<exists>w. dds_fword n = Inr w"
proof -
  define N where "N = unat n * DDS_SCALE"
  have "N \<le> 399999999 * DDS_SCALE"
    using assms by (simp add: N_def)
  then have N: "N \<le> 2417851633184629301926854"
    by (simp add: DDS_SCALE_def)
  have "round_binary64 N * 2 ^ 52 \<le> N * 2 ^ 52 + N"
    by (rule round_binary64_upper)
  also have "\<dots> \<le> 2417851633184629301926854 * 2 ^ 52 + 2417851633184629301926854"
    using N by (intro add_mono mult_le_mono1)
  also have "\<dots> < (2 ^ 32 * 2 ^ 49) * 2 ^ 52" by simp
  finally have "round_binary64 N * 2 ^ 52 < (2 ^ 32 * 2 ^ 49) * 2 ^ 52" .
  then have "round_binary64 N < 2 ^ 32 * 2 ^ 49"
    by (simp only: mult_less_cancel2)
  then have "round_binary64 N div 2 ^ 49 < 2 ^ 32"
    by (simp add: less_mult_imp_div_less)
  then show ?thesis
    by (simp add: dds_fword_def N_def Let_def)
qed

text \<open>
  C7. For \<open>f = 7,120,000\<close> the tuning word computed by \<open>set_frequency\<close> is
  183,824,600, the rounded value of \<open>(f + IF) * 2^32 / f_clock\<close>. From any state,
  \<open>set_frequency\<close> returns, and the pin values it writes carry exactly 40 clocked
  bits: the instruction byte 0x04 and the four bytes 0x0A, 0xF4, 0xF0, 0xD8 of the
  tuning word, most significant first. The update strobe IO_UD is low in every pin
  value written during the transfer and high in the last one.
\<close>

theorem set_frequency_7120000:
  "\<exists>st'. set_frequency 7120000 st = Inr st'
     \<and> dds_bytes (dds_sample (gpiob_odr st) (dds_written st st')) = [0x04, 0x0A, 0xF4, 0xF0, 0xD8]
     \<and> length (dds_sample (gpiob_odr st) (dds_written st st')) = 40
     \<and> list_all (\<lambda>w. \<not> bit w DDS_IO_UD) (butlast (dds_written st st'))
     \<and> bit (last (dds_written st st')) DDS_IO_UD
     \<and> dds_fword (7120000 + INTERFREQUENCY) = Inr (of_nat (spec_tuning_word 7120000))
     \<and> spec_tuning_word 7120000 = 183824600"
proof -
  have s: "spec_tuning_word 7120000 = 183824600"
    by (simp add: spec_tuning_word_def)
  have f: "dds_fword (7120000 + INTERFREQUENCY) = Inr (of_nat (spec_tuning_word 7120000))"
    unfolding s fword_7120000 by simp
  have b: "[0x04, ucast (drop_bit 24 (183824600 :: 32 word)), ucast (drop_bit 16 (183824600 :: 32 word)),
            ucast (drop_bit 8 (183824600 :: 32 word)), ucast (183824600 :: 32 word)]
           = [0x04, 0x0A, 0xF4, 0xF0, 0xD8 :: uint8]"
    by simp
  from set_frequency_link [OF fword_7120000, of st] s f show ?thesis
    unfolding b by blast
qed

section \<open>What each function leaves unchanged\<close>

lemma lcd_putstring_frame [simp]:
  shows "cur_vfo (lcd_putstring x0 y0 s fcol bcol xf yf st) = cur_vfo st"
    and "cur_band (lcd_putstring x0 y0 s fcol bcol xf yf st) = cur_band st"
    and "sideband (lcd_putstring x0 y0 s fcol bcol xf yf st) = sideband st"
    and "f_lo (lcd_putstring x0 y0 s fcol bcol xf yf st) = f_lo st"
    and "f_vfo (lcd_putstring x0 y0 s fcol bcol xf yf st) = f_vfo st"
    and "tuning (lcd_putstring x0 y0 s fcol bcol xf yf st) = tuning st"
    and "pulses (lcd_putstring x0 y0 s fcol bcol xf yf st) = pulses st"
    and "runsecs (lcd_putstring x0 y0 s fcol bcol xf yf st) = runsecs st"
    and "runsecs_msg (lcd_putstring x0 y0 s fcol bcol xf yf st) = runsecs_msg st"
    and "eeprom (lcd_putstring x0 y0 s fcol bcol xf yf st) = eeprom st"
    and "gpioa_odr (lcd_putstring x0 y0 s fcol bcol xf yf st) = gpioa_odr st"
    and "gpiob_odr (lcd_putstring x0 y0 s fcol bcol xf yf st) = gpiob_odr st"
    and "gpioc_odr (lcd_putstring x0 y0 s fcol bcol xf yf st) = gpioc_odr st"
    and "dds_pins (lcd_putstring x0 y0 s fcol bcol xf yf st) = dds_pins st"
    and "si5351 (lcd_putstring x0 y0 s fcol bcol xf yf st) = si5351 st"
    and "adc_in (lcd_putstring x0 y0 s fcol bcol xf yf st) = adc_in st"
  by (simp_all add: lcd_putstring_def)

lemma lcd_putnumber_frame [simp]:
  shows "cur_vfo (lcd_putnumber col row num dec fcolor bcolor xf yf st) = cur_vfo st"
    and "cur_band (lcd_putnumber col row num dec fcolor bcolor xf yf st) = cur_band st"
    and "sideband (lcd_putnumber col row num dec fcolor bcolor xf yf st) = sideband st"
    and "f_lo (lcd_putnumber col row num dec fcolor bcolor xf yf st) = f_lo st"
    and "f_vfo (lcd_putnumber col row num dec fcolor bcolor xf yf st) = f_vfo st"
    and "tuning (lcd_putnumber col row num dec fcolor bcolor xf yf st) = tuning st"
    and "pulses (lcd_putnumber col row num dec fcolor bcolor xf yf st) = pulses st"
    and "runsecs (lcd_putnumber col row num dec fcolor bcolor xf yf st) = runsecs st"
    and "runsecs_msg (lcd_putnumber col row num dec fcolor bcolor xf yf st) = runsecs_msg st"
    and "eeprom (lcd_putnumber col row num dec fcolor bcolor xf yf st) = eeprom st"
    and "gpioa_odr (lcd_putnumber col row num dec fcolor bcolor xf yf st) = gpioa_odr st"
    and "gpiob_odr (lcd_putnumber col row num dec fcolor bcolor xf yf st) = gpiob_odr st"
    and "gpioc_odr (lcd_putnumber col row num dec fcolor bcolor xf yf st) = gpioc_odr st"
    and "dds_pins (lcd_putnumber col row num dec fcolor bcolor xf yf st) = dds_pins st"
    and "si5351 (lcd_putnumber col row num dec fcolor bcolor xf yf st) = si5351 st"
    and "adc_in (lcd_putnumber col row num dec fcolor bcolor xf yf st) = adc_in st"
  by (simp_all add: lcd_putnumber_def)

lemma show_frequency1_frame [simp]:
  shows "cur_vfo (show_frequency1 f csize st) = cur_vfo st"
    and "cur_band (show_frequency1 f csize st) = cur_band st"
    and "sideband (show_frequency1 f csize st) = sideband st"
    and "f_lo (show_frequency1 f csize st) = f_lo st"
    and "f_vfo (show_frequency1 f csize st) = f_vfo st"
    and "tuning (show_frequency1 f csize st) = tuning st"
    and "pulses (show_frequency1 f csize st) = pulses st"
    and "runsecs (show_frequency1 f csize st) = runsecs st"
    and "runsecs_msg (show_frequency1 f csize st) = runsecs_msg st"
    and "eeprom (show_frequency1 f csize st) = eeprom st"
    and "gpioa_odr (show_frequency1 f csize st) = gpioa_odr st"
    and "gpiob_odr (show_frequency1 f csize st) = gpiob_odr st"
    and "gpioc_odr (show_frequency1 f csize st) = gpioc_odr st"
    and "dds_pins (show_frequency1 f csize st) = dds_pins st"
    and "si5351 (show_frequency1 f csize st) = si5351 st"
    and "adc_in (show_frequency1 f csize st) = adc_in st"
  by (simp_all add: show_frequency1_def Let_def)

lemma show_frequency2_frame [simp]:
  shows "cur_vfo (show_frequency2 f st) = cur_vfo st"
    and "cur_band (show_frequency2 f st) = cur_band st"
    and "sideband (show_frequency2 f st) = sideband st"
    and "f_lo (show_frequency2 f st) = f_lo st"
    and "f_vfo (show_frequency2 f st) = f_vfo st"
    and "tuning (show_frequency2 f st) = tuning st"
    and "pulses (show_frequency2 f st) = pulses st"
    and "runsecs (show_frequency2 f st) = runsecs st"
    and "runsecs_msg (show_frequency2 f st) = runsecs_msg st"
    and "eeprom (show_frequency2 f st) = eeprom st"
    and "gpioa_odr (show_frequency2 f st) = gpioa_odr st"
    and "gpiob_odr (show_frequency2 f st) = gpiob_odr st"
    and "gpioc_odr (show_frequency2 f st) = gpioc_odr st"
    and "dds_pins (show_frequency2 f st) = dds_pins st"
    and "si5351 (show_frequency2 f st) = si5351 st"
    and "adc_in (show_frequency2 f st) = adc_in st"
  by (simp_all add: show_frequency2_def Let_def)

lemma show_band_frame [simp]:
  shows "cur_vfo (show_band band invert st) = cur_vfo st"
    and "cur_band (show_band band invert st) = cur_band st"
    and "sideband (show_band band invert st) = sideband st"
    and "f_lo (show_band band invert st) = f_lo st"
    and "f_vfo (show_band band invert st) = f_vfo st"
    and "tuning (show_band band invert st) = tuning st"
    and "pulses (show_band band invert st) = pulses st"
    and "runsecs (show_band band invert st) = runsecs st"
    and "runsecs_msg (show_band band invert st) = runsecs_msg st"
    and "eeprom (show_band band invert st) = eeprom st"
    and "gpioa_odr (show_band band invert st) = gpioa_odr st"
    and "gpiob_odr (show_band band invert st) = gpiob_odr st"
    and "gpioc_odr (show_band band invert st) = gpioc_odr st"
    and "dds_pins (show_band band invert st) = dds_pins st"
    and "si5351 (show_band band invert st) = si5351 st"
    and "adc_in (show_band band invert st) = adc_in st"
  by (simp_all add: show_band_def Let_def)

lemma show_sideband_frame [simp]:
  shows "cur_vfo (show_sideband sb invert st) = cur_vfo st"
    and "cur_band (show_sideband sb invert st) = cur_band st"
    and "sideband (show_sideband sb invert st) = sideband st"
    and "f_lo (show_sideband sb invert st) = f_lo st"
    and "f_vfo (show_sideband sb invert st) = f_vfo st"
    and "tuning (show_sideband sb invert st) = tuning st"
    and "pulses (show_sideband sb invert st) = pulses st"
    and "runsecs (show_sideband sb invert st) = runsecs st"
    and "runsecs_msg (show_sideband sb invert st) = runsecs_msg st"
    and "eeprom (show_sideband sb invert st) = eeprom st"
    and "gpioa_odr (show_sideband sb invert st) = gpioa_odr st"
    and "gpiob_odr (show_sideband sb invert st) = gpiob_odr st"
    and "gpioc_odr (show_sideband sb invert st) = gpioc_odr st"
    and "dds_pins (show_sideband sb invert st) = dds_pins st"
    and "si5351 (show_sideband sb invert st) = si5351 st"
    and "adc_in (show_sideband sb invert st) = adc_in st"
  by (simp_all add: show_sideband_def Let_def)

lemma show_vfo_frame [simp]:
  shows "cur_vfo (show_vfo cvfo cband invert st) = cur_vfo st"
    and "cur_band (show_vfo cvfo cband invert st) = cur_band st"
    and "sideband (show_vfo cvfo cband invert st) = sideband st"
    and "f_lo (show_vfo cvfo cband invert st) = f_lo st"
    and "f_vfo (show_vfo cvfo cband invert st) = f_vfo st"
    and "tuning (show_vfo cvfo cband invert st) = tuning st"
    and "pulses (show_vfo cvfo cband invert st) = pulses st"
    and "runsecs (show_vfo cvfo cband invert st) = runsecs st"
    and "runsecs_msg (show_vfo cvfo cband invert st) = runsecs_msg st"
    and "eeprom (show_vfo cvfo cband invert st) = eeprom st"
    and "gpioa_odr (show_vfo cvfo cband invert st) = gpioa_odr st"
    and "gpiob_odr (show_vfo cvfo cband invert st) = gpiob_odr st"
    and "gpioc_odr (show_vfo cvfo cband invert st) = gpioc_odr st"
    and "dds_pins (show_vfo cvfo cband invert st) = dds_pins st"
    and "si5351 (show_vfo cvfo cband invert st) = si5351 st"
    and "adc_in (show_vfo cvfo cband invert st) = adc_in st"
  by (simp_all add: show_vfo_def Let_def)

lemma show_msg_frame [simp]:
  shows "cur_vfo (show_msg msg fcolor st) = cur_vfo st"
    and "cur_band (show_msg msg fcolor st) = cur_band st"
    and "sideband (show_msg msg fcolor st) = sideband st"
    and "f_lo (show_msg msg fcolor st) = f_lo st"
    and "f_vfo (show_msg msg fcolor st) = f_vfo st"
    and "tuning (show_msg msg fcolor st) = tuning st"
    and "pulses (show_msg msg fcolor st) = pulses st"
    and "runsecs (show_msg msg fcolor st) = runsecs st"
    and "runsecs_msg (show_msg msg fcolor st) = runsecs_msg st"
    and "eeprom (show_msg msg fcolor st) = eeprom st"
    and "gpioa_odr (show_msg msg fcolor st) = gpioa_odr st"
    and "gpiob_odr (show_msg msg fcolor st) = gpiob_odr st"
    and "gpioc_odr (show_msg msg fcolor st) = gpioc_odr st"
    and "dds_pins (show_msg msg fcolor st) = dds_pins st"
    and "si5351 (show_msg msg fcolor st) = si5351 st"
    and "adc_in (show_msg msg fcolor st) = adc_in st"
  by (simp_all add: show_msg_def Let_def)

lemma si5351_set_freq_frame [simp]:
  shows "cur_vfo (si5351_set_freq synth freq st) = cur_vfo st"
    and "cur_band (si5351_set_freq synth freq st) = cur_band st"
    and "sideband (si5351_set_freq synth freq st) = sideband st"
    and "f_lo (si5351_set_freq synth freq st) = f_lo st"
    and "f_vfo (si5351_set_freq synth freq st) = f_vfo st"
    and "tuning (si5351_set_freq synth freq st) = tuning st"
    and "pulses (si5351_set_freq synth freq st) = pulses st"
    and "runsecs (si5351_set_freq synth freq st) = runsecs st"
    and "runsecs_msg (si5351_set_freq synth freq st) = runsecs_msg st"
    and "eeprom (si5351_set_freq synth freq st) = eeprom st"
    and "gpioa_odr (si5351_set_freq synth freq st) = gpioa_odr st"
    and "gpiob_odr (si5351_set_freq synth freq st) = gpiob_odr st"
    and "gpioc_odr (si5351_set_freq synth freq st) = gpioc_odr st"
    and "dds_pins (si5351_set_freq synth freq st) = dds_pins st"
    and "lcd (si5351_set_freq synth freq st) = lcd st"
    and "adc_in (si5351_set_freq synth freq st) = adc_in st"
  by (simp_all add: si5351_set_freq_def)

lemma eeprom_write_frame [simp]:
  shows "cur_vfo (eeprom_write a v st) = cur_vfo st"
    and "cur_band (eeprom_write a v st) = cur_band st"
    and "sideband (eeprom_write a v st) = sideband st"
    and "f_lo (eeprom_write a v st) = f_lo st"
    and "f_vfo (eeprom_write a v st) = f_vfo st"
    and "tuning (eeprom_write a v st) = tuning st"
    and "pulses (eeprom_write a v st) = pulses st"
    and "runsecs (eeprom_write a v st) = runsecs st"
    and "runsecs_msg (eeprom_write a v st) = runsecs_msg st"
    and "gpioa_odr (eeprom_write a v st) = gpioa_odr st"
    and "gpiob_odr (eeprom_write a v st) = gpiob_odr st"
    and "gpioc_odr (eeprom_write a v st) = gpioc_odr st"
    and "dds_pins (eeprom_write a v st) = dds_pins st"
    and "si5351 (eeprom_write a v st) = si5351 st"
    and "lcd (eeprom_write a v st) = lcd st"
    and "adc_in (eeprom_write a v st) = adc_in st"
  by (simp_all add: eeprom_write_def Let_def)

lemma pins_append_frame [simp]:
  shows "cur_vfo (pins_append ws st) = cur_vfo st"
    and "cur_band (pins_append ws st) = cur_band st"
    and "sideband (pins_append ws st) = sideband st"
    and "f_lo (pins_append ws st) = f_lo st"
    and "f_vfo (pins_append ws st) = f_vfo st"
    and "tuning (pins_append ws st) = tuning st"
    and "pulses (pins_append ws st) = pulses st"
    and "runsecs (pins_append ws st) = runsecs st"
    and "runsecs_msg (pins_append ws st) = runsecs_msg st"
    and "eeprom (pins_append ws st) = eeprom st"
    and "gpioa_odr (pins_append ws st) = gpioa_odr st"
    and "gpioc_odr (pins_append ws st) = gpioc_odr st"
    and "si5351 (pins_append ws st) = si5351 st"
    and "lcd (pins_append ws st) = lcd st"
    and "adc_in (pins_append ws st) = adc_in st"
  by (simp_all add: pins_append_def)

lemma relay_loop_frame [simp]:
  shows "cur_vfo (relay_loop t1 b st) = cur_vfo st"
    and "cur_band (relay_loop t1 b st) = cur_band st"
    and "sideband (relay_loop t1 b st) = sideband st"
    and "f_lo (relay_loop t1 b st) = f_lo st"
    and "f_vfo (relay_loop t1 b st) = f_vfo st"
    and "tuning (relay_loop t1 b st) = tuning st"
    and "pulses (relay_loop t1 b st) = pulses st"
    and "runsecs (relay_loop t1 b st) = runsecs st"
    and "runsecs_msg (relay_loop t1 b st) = runsecs_msg st"
    and "eeprom (relay_loop t1 b st) = eeprom st"
    and "gpiob_odr (relay_loop t1 b st) = gpiob_odr st"
    and "gpioc_odr (relay_loop t1 b st) = gpioc_odr st"
    and "dds_pins (relay_loop t1 b st) = dds_pins st"
    and "si5351 (relay_loop t1 b st) = si5351 st"
    and "lcd (relay_loop t1 b st) = lcd st"
    and "adc_in (relay_loop t1 b st) = adc_in st"
  by (induction t1 b st rule: relay_loop.induct; subst relay_loop.simps; simp)+

section \<open>Loading the state at boot\<close>

lemma eeprom_load_frequency_eeprom:
  assumes "eeprom st' = eeprom st"
  shows "eeprom_load_frequency b v st' = eeprom_load_frequency b v st"
  unfolding eeprom_load_frequency_def eeprom_read_eeprom assms ..

lemma eeprom_load_frequency_f_vfo [simp]:
  "eeprom_load_frequency b v (st\<lparr>f_vfo := x\<rparr>) = eeprom_load_frequency b v st"
  by (rule eeprom_load_frequency_eeprom) simp

lemma slot_value_f_vfo [simp]: "slot_value (st\<lparr>f_vfo := x\<rparr>) b v = slot_value st b v"
  unfolding slot_value_def by simp


lemma load_vfo_row_state:
  "load_vfo_row t0 t1 st =
     st\<lparr>f_vfo := (\<lambda>b v. if b = t0 \<and> t1 \<le> v \<and> v < 2 then slot_value st b v else f_vfo st b v)\<rparr>"
proof (induction "nat (2 - t1)" arbitrary: t1 st)
  case 0
  then have False: "\<not> t1 < 2" by simp
  then have e: "(\<lambda>b v. if b = t0 \<and> t1 \<le> v \<and> v < 2 then slot_value st b v else f_vfo st b v)
      = f_vfo st"
    by (auto simp add: fun_eq_iff)
  show ?case
    unfolding e using False by (subst load_vfo_row.simps) simp
next
  case (Suc n)
  then have True: "t1 < 2" and n: "n = nat (2 - (t1 + 1))" by simp_all
  let ?st2 = "st\<lparr>f_vfo := (f_vfo st)(t0 := (f_vfo st t0)(t1 := slot_value st t0 t1))\<rparr>"
  have step: "load_vfo_row t0 t1 st = load_vfo_row t0 (t1 + 1) ?st2"
    using True
    by (subst load_vfo_row.simps) (simp add: Let_def slot_value_def)
  have lam: "(\<lambda>b v. if b = t0 \<and> t1 + 1 \<le> v \<and> v < 2 then slot_value st b v
                else ((f_vfo st)(t0 := (f_vfo st t0)(t1 := slot_value st t0 t1))) b v)
      = (\<lambda>b v. if b = t0 \<and> t1 \<le> v \<and> v < 2 then slot_value st b v else f_vfo st b v)"
    using True by (auto simp add: fun_eq_iff)
  have "load_vfo_row t0 (t1 + 1) ?st2 =
      ?st2\<lparr>f_vfo := (\<lambda>b v. if b = t0 \<and> t1 + 1 \<le> v \<and> v < 2 then slot_value ?st2 b v
                else f_vfo ?st2 b v)\<rparr>"
    by (rule Suc.hyps(1) [OF n])
  also have "\<dots> = st\<lparr>f_vfo := (\<lambda>b v. if b = t0 \<and> t1 + 1 \<le> v \<and> v < 2 then slot_value st b v
                else ((f_vfo st)(t0 := (f_vfo st t0)(t1 := slot_value st t0 t1))) b v)\<rparr>"
    by (simp cong: if_cong)
  finally show ?case
    unfolding step lam .
qed

lemma load_vfo_rows_state:
  "load_vfo_rows t0 st =
     st\<lparr>f_vfo := (\<lambda>b v. if t0 \<le> b \<and> b < 8 \<and> 0 \<le> v \<and> v < 2 then slot_value st b v else f_vfo st b v)\<rparr>"
proof (induction "nat (8 - t0)" arbitrary: t0 st)
  case 0
  then have False: "\<not> t0 < MAXBANDS" by (simp add: MAXBANDS_def)
  then have e: "(\<lambda>b v. if t0 \<le> b \<and> b < 8 \<and> 0 \<le> v \<and> v < 2 then slot_value st b v
      else f_vfo st b v) = f_vfo st"
    by (auto simp add: fun_eq_iff MAXBANDS_def)
  show ?case
    unfolding e using False by (subst load_vfo_rows.simps) simp
next
  case (Suc n)
  then have True: "t0 < MAXBANDS" and n: "n = nat (8 - (t0 + 1))" by (simp_all add: MAXBANDS_def)
  have step: "load_vfo_rows t0 st = load_vfo_rows (t0 + 1) (load_vfo_row t0 0 st)"
    using True by (subst load_vfo_rows.simps) simp
  let ?st1 = "st\<lparr>f_vfo := (\<lambda>b v. if b = t0 \<and> 0 \<le> v \<and> v < 2 then slot_value st b v
                else f_vfo st b v)\<rparr>"
  have lam: "(\<lambda>b v. if t0 + 1 \<le> b \<and> b < 8 \<and> 0 \<le> v \<and> v < 2 then slot_value st b v
                else if b = t0 \<and> 0 \<le> v \<and> v < 2 then slot_value st b v else f_vfo st b v)
      = (\<lambda>b v. if t0 \<le> b \<and> b < 8 \<and> 0 \<le> v \<and> v < 2 then slot_value st b v else f_vfo st b v)"
    using True by (auto simp add: fun_eq_iff MAXBANDS_def)
  have "load_vfo_rows (t0 + 1) ?st1 =
      ?st1\<lparr>f_vfo := (\<lambda>b v. if t0 + 1 \<le> b \<and> b < 8 \<and> 0 \<le> v \<and> v < 2 then slot_value ?st1 b v
                else f_vfo ?st1 b v)\<rparr>"
    by (rule Suc.hyps(1) [OF n])
  also have "\<dots> = st\<lparr>f_vfo := (\<lambda>b v. if t0 + 1 \<le> b \<and> b < 8 \<and> 0 \<le> v \<and> v < 2 then slot_value st b v
                else if b = t0 \<and> 0 \<le> v \<and> v < 2 then slot_value st b v else f_vfo st b v)\<rparr>"
    by (simp cong: if_cong)
  finally show ?case
    unfolding step load_vfo_row_state lam .
qed

lemma f_vfo0_ok:
  "0 \<le> b \<Longrightarrow> b < 8 \<Longrightarrow> 0 \<le> v \<Longrightarrow> v < 2 \<Longrightarrow> is_freq_ok (f_vfo0 ! nat b ! nat v) b"
proof -
  assume "0 \<le> b" "b < 8" "0 \<le> v" "v < 2"
  then have "b \<in> {0, 1, 2, 3, 4, 5, 6, 7}" and "v \<in> {0, 1}" by auto
  then show ?thesis
    by (auto simp add: is_freq_ok_def f_vfo0_def band_f0_def band_f1_def word_sle_eq)
qed

lemma slot_value_ok:
  "0 \<le> b \<Longrightarrow> b < 8 \<Longrightarrow> 0 \<le> v \<Longrightarrow> v < 2 \<Longrightarrow> is_freq_ok (slot_value st b v) b"
  by (simp add: slot_value_def f_vfo0_ok)

lemma slot_value_eeprom:
  assumes "eeprom st' = eeprom st"
  shows "slot_value st' = slot_value st"
  by (simp add: fun_eq_iff slot_value_def eeprom_load_frequency_eeprom [OF assms])

lemma lo_value_eeprom:
  assumes "eeprom st' = eeprom st"
  shows "lo_value st' = lo_value st"
  by (simp add: fun_eq_iff lo_value_def eeprom_load_frequency_eeprom [OF assms])

lemma lo_loop_step:
  "t1 < 2 \<Longrightarrow> lo_loop t1 st =
     lo_loop (t1 + 1) (st\<lparr>f_lo := (f_lo st)(t1 := lo_value st t1),
                           si5351 := si5351 st @ [(SYNTH_MS_0, lo_value st t1)]\<rparr>)"
proof -
  assume t: "t1 < 2"
  have e: "eeprom_load_frequency 8 t1 (st\<lparr>f_lo := (f_lo st)(t1 := eeprom_load_frequency 8 t1 st)\<rparr>)
      = eeprom_load_frequency 8 t1 st"
    by (rule eeprom_load_frequency_eeprom) simp
  show ?thesis
    using t by (subst lo_loop.simps) (simp add: Let_def lo_value_def si5351_set_freq_def)
qed

lemma lo_loop_0:
  "lo_loop 0 st =
     st\<lparr>f_lo := (f_lo st)(0 := lo_value st 0, 1 := lo_value st 1),
        si5351 := si5351 st @ [(SYNTH_MS_0, lo_value st 0), (SYNTH_MS_0, lo_value st 1)]\<rparr>"
proof -
  let ?st1 = "st\<lparr>f_lo := (f_lo st)(0 := lo_value st 0),
                    si5351 := si5351 st @ [(SYNTH_MS_0, lo_value st 0)]\<rparr>"
  let ?st2 = "?st1\<lparr>f_lo := (f_lo ?st1)(1 := lo_value ?st1 1),
                    si5351 := si5351 ?st1 @ [(SYNTH_MS_0, lo_value ?st1 1)]\<rparr>"
  have l: "lo_value ?st1 = lo_value st"
    by (rule lo_value_eeprom) simp
  have "lo_loop 0 st = lo_loop 1 ?st1"
    using lo_loop_step [of 0 st] by simp
  also have "\<dots> = lo_loop 2 ?st2"
    using lo_loop_step [of 1 ?st1] by simp
  also have "\<dots> = ?st2"
    by (subst lo_loop.simps) simp
  finally show ?thesis
    unfolding l by simp
qed


text \<open>The variables after \<open>boot_load\<close>, in terms of the EEPROM content.\<close>

lemma boot_load_fields:
  shows "cur_band (boot_load st) = (if uint (eeprom st 256) > 7 then 2 else uint (eeprom st 256))"
    and "cur_vfo (boot_load st) = (if uint (eeprom st 257) > 1 then 0 else uint (eeprom st 257))"
    and "f_vfo (boot_load st) =
          (\<lambda>b v. if 0 \<le> b \<and> b < 8 \<and> 0 \<le> v \<and> v < 2 then slot_value st b v else f_vfo st b v)"
    and "f_lo (boot_load st) = (f_lo st)(0 := lo_value st 0, 1 := lo_value st 1)"
    and "sideband (boot_load st) = pref_sideband ! nat (cur_band (boot_load st))"
    and "eeprom (boot_load st) = eeprom st"
proof -
  define st1 where "st1 = st\<lparr>cur_band := uint (eeprom_read 256 st)\<rparr>"
  define st2 where "st2 = (if cur_band st1 < 0 \<or> cur_band st1 > 7 then st1\<lparr>cur_band := 2\<rparr> else st1)"
  define st3 where "st3 = st2\<lparr>cur_vfo := uint (eeprom_read 257 st2)\<rparr>"
  define st4 where "st4 = (if cur_vfo st3 < 0 \<or> cur_vfo st3 > 1 then st3\<lparr>cur_vfo := 0\<rparr> else st3)"
  define st5 where "st5 = load_all_vfos st4"
  define st6 where "st6 = st5\<lparr>sideband := pref_sideband ! nat (cur_band st5)\<rparr>"
  have b: "boot_load st = lo_loop 0 st6"
    by (simp add: boot_load_def Let_def st1_def st2_def st3_def st4_def st5_def st6_def)
  have e4: "eeprom st4 = eeprom st"
    by (simp add: st4_def st3_def st2_def st1_def)
  have cb4: "cur_band st4 = (if uint (eeprom st 256) > 7 then 2 else uint (eeprom st 256))"
    by (simp add: st4_def st3_def st2_def st1_def eeprom_read_eeprom)
  have cv4: "cur_vfo st4 = (if uint (eeprom st 257) > 1 then 0 else uint (eeprom st 257))"
    by (simp add: st4_def st3_def st2_def st1_def eeprom_read_eeprom)
  have fv4: "f_vfo st4 = f_vfo st" and fl4: "f_lo st4 = f_lo st"
    by (simp_all add: st4_def st3_def st2_def st1_def)
  have st5: "st5 = st4\<lparr>f_vfo := (\<lambda>b v. if 0 \<le> b \<and> b < 8 \<and> 0 \<le> v \<and> v < 2
      then slot_value st4 b v else f_vfo st4 b v)\<rparr>"
    by (simp add: st5_def load_all_vfos_def load_vfo_rows_state)
  have e6: "eeprom st6 = eeprom st"
    by (simp add: st6_def st5 e4)
  show "cur_band (boot_load st) = (if uint (eeprom st 256) > 7 then 2 else uint (eeprom st 256))"
    by (simp add: b lo_loop_0 st6_def st5 cb4)
  show "cur_vfo (boot_load st) = (if uint (eeprom st 257) > 1 then 0 else uint (eeprom st 257))"
    by (simp add: b lo_loop_0 st6_def st5 cv4)
  show "f_vfo (boot_load st) =
          (\<lambda>b v. if 0 \<le> b \<and> b < 8 \<and> 0 \<le> v \<and> v < 2 then slot_value st b v else f_vfo st b v)"
    by (simp add: b lo_loop_0 st6_def st5 fv4 slot_value_eeprom [OF e4] cong: if_cong)
  show "f_lo (boot_load st) = (f_lo st)(0 := lo_value st 0, 1 := lo_value st 1)"
    by (simp add: b lo_loop_0 lo_value_eeprom [OF e6]) (simp add: st6_def st5 fl4)
  show "sideband (boot_load st) = pref_sideband ! nat (cur_band (boot_load st))"
    by (simp add: b lo_loop_0 st6_def)
  show "eeprom (boot_load st) = eeprom st"
    by (simp add: b lo_loop_0 e6)
qed

lemma set_band_relay_frame [simp]:
  shows "cur_vfo (set_band_relay b st) = cur_vfo st"
    and "cur_band (set_band_relay b st) = cur_band st"
    and "sideband (set_band_relay b st) = sideband st"
    and "f_lo (set_band_relay b st) = f_lo st"
    and "f_vfo (set_band_relay b st) = f_vfo st"
    and "tuning (set_band_relay b st) = tuning st"
    and "pulses (set_band_relay b st) = pulses st"
    and "runsecs (set_band_relay b st) = runsecs st"
    and "runsecs_msg (set_band_relay b st) = runsecs_msg st"
    and "eeprom (set_band_relay b st) = eeprom st"
    and "gpiob_odr (set_band_relay b st) = gpiob_odr st"
    and "gpioc_odr (set_band_relay b st) = gpioc_odr st"
    and "dds_pins (set_band_relay b st) = dds_pins st"
    and "adc_in (set_band_relay b st) = adc_in st"
  by (simp_all add: set_band_relay_def Let_def)

lemma boot_show_frame [simp]:
  shows "cur_vfo (boot_show st) = cur_vfo st"
    and "cur_band (boot_show st) = cur_band st"
    and "sideband (boot_show st) = sideband st"
    and "f_lo (boot_show st) = f_lo st"
    and "f_vfo (boot_show st) = f_vfo st"
    and "eeprom (boot_show st) = eeprom st"
  by (simp_all add: boot_show_def Let_def)

lemma lo_value_window:
  "INTERFREQUENCY - 3000 \<le>s lo_value st s \<and> lo_value st s \<le>s INTERFREQUENCY + 3000" if "s = 0 \<or> s = 1"
  using that
  by (auto simp add: lo_value_def INTERFREQUENCY_def word_sle_eq word_sless_alt)


text \<open>
  C5. After boot every VFO slot \<open>(b, v)\<close> with \<open>b\<close> in 0..7 and \<open>v\<close> in 0..1
  holds a frequency within the bounds of its band: the frequency read from the EEPROM
  when that lies within the bounds, the factory default \<open>f_vfo0[b][v]\<close> otherwise;
  and every factory default lies within the bounds of its band. The same holds right
  after \<open>load_all_vfos\<close>.
\<close>

theorem boot_vfos_in_band:
  assumes "0 \<le> b" and "b < 8" and "0 \<le> v" and "v < 2"
  shows "band_f0 ! nat b \<le>s f_vfo (boot st) b v \<and> f_vfo (boot st) b v \<le>s band_f1 ! nat b
    \<and> f_vfo (boot st) b v =
        (if is_freq_ok (eeprom_load_frequency b v st) b then eeprom_load_frequency b v st
         else f_vfo0 ! nat b ! nat v)
    \<and> f_vfo (load_all_vfos st) b v = f_vfo (boot st) b v
    \<and> band_f0 ! nat b \<le>s f_vfo0 ! nat b ! nat v \<and> f_vfo0 ! nat b ! nat v \<le>s band_f1 ! nat b"
proof -
  have a: "f_vfo (boot st) b v = slot_value st b v"
    using assms by (simp add: boot_def boot_load_fields)
  have l: "f_vfo (load_all_vfos st) b v = slot_value st b v"
    using assms by (simp add: load_all_vfos_def load_vfo_rows_state)
  have ok: "is_freq_ok (slot_value st b v) b"
    using assms by (rule slot_value_ok)
  have d: "is_freq_ok (f_vfo0 ! nat b ! nat v) b"
    using assms by (rule f_vfo0_ok)
  from ok d show ?thesis
    unfolding a l by (simp add: is_freq_ok_def slot_value_def)
qed

lemma load_999: "eeprom_load_frequency 3 0
    (reset_state\<lparr>eeprom := (\<lambda>_. 0xFF)(152 := 0, 153 := 0, 154 := 3, 155 := 0xE7)\<rparr>) = 999"
  unfolding eeprom_load_frequency_def eeprom_read_eeprom Let_def
  by (simp add: reset_state_def)

theorem boot_vfos_in_band_witness:
  "f_vfo (boot (reset_state\<lparr>eeprom := (\<lambda>_. 0xFF)(152 := 0, 153 := 0, 154 := 3, 155 := 0xE7)\<rparr>)) 3 0
     = 14200000
   \<and> (14000000 :: long) \<le>s 14200000 \<and> (14200000 :: long) \<le>s 14350000"
  using boot_vfos_in_band [of 3 0
      "reset_state\<lparr>eeprom := (\<lambda>_. 0xFF)(152 := 0, 153 := 0, 154 := 3, 155 := 0xE7)\<rparr>"]
  by (simp add: load_999 is_freq_ok_def band_f0_def band_f1_def f_vfo0_def word_sle_eq)

text \<open>
  C6. After boot both LO frequencies lie within 3000 Hz of 10,000,000 Hz. Each is the
  value read from slot \<open>(8, s)\<close> of the EEPROM when that lies in the window, and
  otherwise 9,998,500 for \<open>s = 0\<close> (LSB) and 10,001,500 for \<open>s = 1\<close> (USB).
\<close>

theorem boot_lo_in_window:
  "\<bar>sint (f_lo (boot st) 0) - 10000000\<bar> \<le> 3000
   \<and> \<bar>sint (f_lo (boot st) 1) - 10000000\<bar> \<le> 3000
   \<and> f_lo (boot st) 0 =
       (if eeprom_load_frequency 8 0 st <s INTERFREQUENCY - 3000
           \<or> INTERFREQUENCY + 3000 <s eeprom_load_frequency 8 0 st
        then 9998500 else eeprom_load_frequency 8 0 st)
   \<and> f_lo (boot st) 1 =
       (if eeprom_load_frequency 8 1 st <s INTERFREQUENCY - 3000
           \<or> INTERFREQUENCY + 3000 <s eeprom_load_frequency 8 1 st
        then 10001500 else eeprom_load_frequency 8 1 st)"
proof -
  have f0: "f_lo (boot st) 0 = lo_value st 0" and f1: "f_lo (boot st) 1 = lo_value st 1"
    by (simp_all add: boot_def boot_load_fields)
  have w0: "\<bar>sint (lo_value st 0) - 10000000\<bar> \<le> 3000"
    using lo_value_window [of 0 st] by (simp add: INTERFREQUENCY_def word_sle_eq abs_le_iff)
  have w1: "\<bar>sint (lo_value st 1) - 10000000\<bar> \<le> 3000"
    using lo_value_window [of 1 st] by (simp add: INTERFREQUENCY_def word_sle_eq abs_le_iff)
  show ?thesis
    unfolding f0 f1 using w0 w1 by (simp add: lo_value_def INTERFREQUENCY_def)
qed

text \<open>
  C9. At boot the band index is the byte stored at EEPROM address 256 when that is in
  0..7 and 2 otherwise (9, for example, gives 2); the VFO id is the byte stored at
  address 257 when that is 0 or 1, and 0 otherwise.
\<close>

theorem boot_band_and_vfo:
  "cur_band (boot st) =
     (if 0 \<le> uint (eeprom st 256) \<and> uint (eeprom st 256) \<le> 7 then uint (eeprom st 256) else 2)
   \<and> cur_vfo (boot st) =
     (if 0 \<le> uint (eeprom st 257) \<and> uint (eeprom st 257) \<le> 1 then uint (eeprom st 257) else 0)
   \<and> cur_band (boot (st\<lparr>eeprom := (eeprom st)(256 := 9)\<rparr>)) = 2"
  by (simp add: boot_def boot_load_fields)

section \<open>The control loop: tuning and band keys\<close>

lemma set_frequency_cases:
  "set_frequency f st =
     (case dds_fword (f + INTERFREQUENCY) of
        Inl e \<Rightarrow> Inl e
      | Inr w \<Rightarrow> Inr (pins_append (dds_transfer (gpiob_odr st) w) st))"
proof (cases "dds_fword (f + INTERFREQUENCY)")
  case (Inl e)
  then show ?thesis by (simp add: set_frequency_def)
next
  case (Inr w)
  then show ?thesis by (simp add: set_frequency_pins)
qed

lemma set_frequency_Inr:
  assumes "set_frequency f st = Inr st'"
  shows "\<exists>ws. st' = pins_append ws st"
  using assms unfolding set_frequency_cases by (auto split: sum.splits)

lemma set_frequency_total:
  assumes "unat (f + INTERFREQUENCY) < 400000000"
  shows "\<exists>ws. set_frequency f st = Inr (pins_append ws st)"
  using dds_fword_total [OF assms] unfolding set_frequency_cases by auto

lemma tuning_step_Inr:
  assumes "tuning st \<noteq> 0" and "tuning_step st = Inr st'"
  shows "\<exists>ws. st' = (show_frequency1
            (f_vfo st (cur_band st) (cur_vfo st) + pulses st * pulses st * word_of_int (tuning st)) 2
            (pins_append ws
              (st\<lparr>f_vfo := (f_vfo st)(cur_band st := (f_vfo st (cur_band st))
                 (cur_vfo st := f_vfo st (cur_band st) (cur_vfo st)
                                  + pulses st * pulses st * word_of_int (tuning st)))\<rparr>)))
          \<lparr>tuning := 0\<rparr>"
proof -
  let ?st1 = "st\<lparr>f_vfo := (f_vfo st)(cur_band st := (f_vfo st (cur_band st))
                 (cur_vfo st := f_vfo st (cur_band st) (cur_vfo st)
                                  + pulses st * pulses st * word_of_int (tuning st)))\<rparr>"
  from assms obtain st2 where
    s: "set_frequency (f_vfo ?st1 (cur_band ?st1) (cur_vfo ?st1)) ?st1 = Inr st2"
    and r: "st' = (show_frequency1 (f_vfo st2 (cur_band st2) (cur_vfo st2)) 2 st2)\<lparr>tuning := 0\<rparr>"
    by (auto simp add: tuning_step_def Let_def split: sum.splits)
  from set_frequency_Inr [OF s] obtain ws where "st2 = pins_append ws ?st1" ..
  with r show ?thesis by auto
qed

lemma tuning_step_total:
  assumes "unat (f_vfo st (cur_band st) (cur_vfo st)
                  + pulses st * pulses st * word_of_int (tuning st) + INTERFREQUENCY) < 400000000"
  shows "\<exists>st'. tuning_step st = Inr st'"
proof (cases "tuning st = 0")
  case True
  then show ?thesis by (simp add: tuning_step_def)
next
  case False
  let ?st1 = "st\<lparr>f_vfo := (f_vfo st)(cur_band st := (f_vfo st (cur_band st))
                 (cur_vfo st := f_vfo st (cur_band st) (cur_vfo st)
                                  + pulses st * pulses st * word_of_int (tuning st)))\<rparr>"
  have "unat (f_vfo ?st1 (cur_band ?st1) (cur_vfo ?st1) + INTERFREQUENCY) < 400000000"
    using assms by simp
  from set_frequency_total [OF this, of ?st1] obtain ws where
    "set_frequency (f_vfo ?st1 (cur_band ?st1) (cur_vfo ?st1)) ?st1 = Inr (pins_append ws ?st1)" ..
  then show ?thesis
    using False by (simp add: tuning_step_def Let_def)
qed

text \<open>
  C3, as stated, fails on the code: the tuning branch of the loop assigns
  \<open>tuning = 0\<close> only. Here a pending event with direction \<open>+1\<close> and five pulses is
  consumed on 7,119,975 Hz; afterwards the direction flag is 0 and the pulse count is
  still 5.
\<close>

theorem tuning_step_pulses_counterexample:
  "map_sum id tuning (tuning_step (reset_state\<lparr>f_vfo := \<lambda>_ _. 7119975, tuning := 1, pulses := 5\<rparr>))
     = Inr 0
   \<and> map_sum id pulses (tuning_step (reset_state\<lparr>f_vfo := \<lambda>_ _. 7119975, tuning := 1, pulses := 5\<rparr>))
     = Inr 5"
proof -
  let ?st = "reset_state\<lparr>f_vfo := \<lambda>_ _. 7119975, tuning := 1, pulses := 5\<rparr>"
  have "unat (f_vfo ?st (cur_band ?st) (cur_vfo ?st)
                  + pulses ?st * pulses ?st * word_of_int (tuning ?st) + INTERFREQUENCY) < 400000000"
    by (simp add: reset_state_def INTERFREQUENCY_def)
  from tuning_step_total [OF this] obtain st' where s: "tuning_step ?st = Inr st'" ..
  have t: "tuning ?st \<noteq> 0" by simp
  from tuning_step_Inr [OF t s] obtain ws where "st' = (show_frequency1
            (f_vfo ?st (cur_band ?st) (cur_vfo ?st) + pulses ?st * pulses ?st * word_of_int (tuning ?st)) 2
            (pins_append ws
              (?st\<lparr>f_vfo := (f_vfo ?st)(cur_band ?st := (f_vfo ?st (cur_band ?st))
                 (cur_vfo ?st := f_vfo ?st (cur_band ?st) (cur_vfo ?st)
                                  + pulses ?st * pulses ?st * word_of_int (tuning ?st)))\<rparr>)))
          \<lparr>tuning := 0\<rparr>" ..
  then have "tuning st' = 0" and "pulses st' = 5" by simp_all
  with s show ?thesis by simp
qed

text \<open>
  C3, amended. On every control-loop iteration that consumes a pending tuning event, the
  consuming step resets the direction flag to zero; it does not reset the accumulated
  pulse count: with no interrupt serviced during the step, the pulse count after the
  step equals the pulse count before it.

  The step below is the body of the \<open>if(tuning)\<close> branch of \<open>main\<close>, run from its
  first statement to its last; the interrupt handlers, which also write \<open>tuning\<close> and
  \<open>pulses\<close>, are not part of it, and the theorem says nothing about a step during
  which one of them runs.
\<close>

theorem tuning_step_resets_direction:
  assumes "tuning st \<noteq> 0" and "tuning_step st = Inr st'"
  shows "tuning st' = 0 \<and> pulses st' = pulses st"
proof -
  from tuning_step_Inr [OF assms] obtain ws where "st' = (show_frequency1
            (f_vfo st (cur_band st) (cur_vfo st) + pulses st * pulses st * word_of_int (tuning st)) 2
            (pins_append ws
              (st\<lparr>f_vfo := (f_vfo st)(cur_band st := (f_vfo st (cur_band st))
                 (cur_vfo st := f_vfo st (cur_band st) (cur_vfo st)
                                  + pulses st * pulses st * word_of_int (tuning st)))\<rparr>)))
          \<lparr>tuning := 0\<rparr>" ..
  then show ?thesis by simp
qed

theorem tuning_step_resets_direction_witness:
  "tuning (projr (tuning_step (reset_state\<lparr>f_vfo := \<lambda>_ _. 7119975, tuning := 1, pulses := 5\<rparr>))) = 0
   \<and> pulses (projr (tuning_step (reset_state\<lparr>f_vfo := \<lambda>_ _. 7119975, tuning := 1, pulses := 5\<rparr>))) = 5"
proof -
  let ?st = "reset_state\<lparr>f_vfo := \<lambda>_ _. 7119975, tuning := 1, pulses := 5\<rparr>"
  have "unat (f_vfo ?st (cur_band ?st) (cur_vfo ?st)
                  + pulses ?st * pulses ?st * word_of_int (tuning ?st) + INTERFREQUENCY) < 400000000"
    by (simp add: reset_state_def INTERFREQUENCY_def)
  from tuning_step_total [OF this] obtain st' where s: "tuning_step ?st = Inr st'" ..
  have t: "tuning ?st \<noteq> 0" by simp
  from tuning_step_resets_direction [OF t s] show ?thesis
    by (simp add: s)
qed

text \<open>
  C4. When the loop consumes a tuning event with direction \<open>d\<close> (\<open>+1\<close> or \<open>-1\<close>)
  and pulse count \<open>p\<close>, the frequency of the active VFO slot becomes
  \<open>f + p * p * d\<close> in the 32-bit arithmetic of \<open>long\<close>: it changes by \<open>d\<close> for
  \<open>p = 1\<close> and by \<open>25 * d\<close> for \<open>p = 5\<close>, and where \<open>p * p\<close> and the sum fit
  into 32 bits its value changes by exactly \<open>d * p^2\<close>. The result is stored as it is:
  no comparison with the band bounds takes place, and the band and the VFO stay the same.
\<close>

theorem tuning_step_changes_frequency:
  assumes "tuning st = d" and "d = 1 \<or> d = - 1" and "pulses st = p"
    and "f_vfo st (cur_band st) (cur_vfo st) = f"
    and "tuning_step st = Inr st'"
  shows "f_vfo st' (cur_band st) (cur_vfo st) = f + p * p * word_of_int d
    \<and> (p = 1 \<longrightarrow> f_vfo st' (cur_band st) (cur_vfo st) = f + word_of_int d)
    \<and> (p = 5 \<longrightarrow> f_vfo st' (cur_band st) (cur_vfo st) = f + 25 * word_of_int d)
    \<and> (sint p * sint p < 2 ^ 31 \<and> - (2 ^ 31) \<le> sint f + d * (sint p) ^ 2
          \<and> sint f + d * (sint p) ^ 2 < 2 ^ 31
        \<longrightarrow> sint (f_vfo st' (cur_band st) (cur_vfo st)) = sint f + d * (sint p) ^ 2)
    \<and> cur_band st' = cur_band st \<and> cur_vfo st' = cur_vfo st"
proof -
  have t: "tuning st \<noteq> 0" using assms(1,2) by auto
  from tuning_step_Inr [OF t assms(5)] obtain ws where "st' = (show_frequency1
            (f_vfo st (cur_band st) (cur_vfo st) + pulses st * pulses st * word_of_int (tuning st)) 2
            (pins_append ws
              (st\<lparr>f_vfo := (f_vfo st)(cur_band st := (f_vfo st (cur_band st))
                 (cur_vfo st := f_vfo st (cur_band st) (cur_vfo st)
                                  + pulses st * pulses st * word_of_int (tuning st)))\<rparr>)))
          \<lparr>tuning := 0\<rparr>" ..
  then have a: "f_vfo st' (cur_band st) (cur_vfo st) = f + p * p * word_of_int d"
    and b: "cur_band st' = cur_band st" and c: "cur_vfo st' = cur_vfo st"
    using assms(1,3,4) by simp_all
  have i: "sint (f + p * p * word_of_int d) = sint f + d * (sint p) ^ 2"
    if "sint p * sint p < 2 ^ 31" and "- (2 ^ 31) \<le> sint f + d * (sint p) ^ 2"
      and "sint f + d * (sint p) ^ 2 < 2 ^ 31"
  proof -
    have "- (2 ^ 31) \<le> sint p * sint p"
      by (rule order_trans [of _ 0]) simp_all
    then have s1: "signed_take_bit 31 (sint p * sint p) = sint p * sint p"
      using that(1) by (rule signed_take_bit_int_eq_self)
    have d: "sint (word_of_int d :: long) = d"
      using assms(2) by auto
    have "\<bar>sint p * sint p * d\<bar> < 2 ^ 31"
      using that(1) assms(2) by (auto simp add: abs_mult)
    then have "- (2 ^ 31) \<le> sint p * sint p * d" and "sint p * sint p * d < 2 ^ 31"
      by (simp_all add: abs_less_iff)
    then have s2: "signed_take_bit 31 (sint p * sint p * d) = sint p * sint p * d"
      by (rule signed_take_bit_int_eq_self)
    have e: "sint f + sint p * sint p * d = sint f + d * (sint p) ^ 2"
      by (simp add: power2_eq_square)
    have "signed_take_bit 31 (sint f + d * (sint p) ^ 2) = sint f + d * (sint p) ^ 2"
      using that(2,3) by (rule signed_take_bit_int_eq_self)
    then have s3: "signed_take_bit 31 (sint f + sint p * sint p * d) = sint f + d * (sint p) ^ 2"
      unfolding e .
    have "sint (p * p) = sint p * sint p"
      by (simp add: sint_word_mult s1)
    then have "sint (p * p * word_of_int d) = sint p * sint p * d"
      by (simp add: sint_word_mult [of "p * p"] d s2)
    then show ?thesis
      by (simp add: sint_word_add [of f] s3)
  qed
  from a b c i show ?thesis by simp
qed


theorem tuning_step_changes_frequency_witness:
  "f_vfo (projr (tuning_step
       (reset_state\<lparr>cur_band := 2, f_vfo := \<lambda>_ _. 7200000, tuning := 1, pulses := 5\<rparr>))) 2 0
     = 7200025
   \<and> is_freq_ok 7200000 2 \<and> \<not> is_freq_ok 7200025 2
   \<and> f_vfo (projr (tuning_step
       (reset_state\<lparr>cur_band := 2, f_vfo := \<lambda>_ _. 7000000, tuning := - 1, pulses := 1\<rparr>))) 2 0
     = 6999999
   \<and> is_freq_ok 7000000 2 \<and> \<not> is_freq_ok 6999999 2"
proof -
  let ?a = "reset_state\<lparr>cur_band := 2, f_vfo := \<lambda>_ _. 7200000, tuning := 1, pulses := 5\<rparr>"
  let ?b = "reset_state\<lparr>cur_band := 2, f_vfo := \<lambda>_ _. 7000000, tuning := - 1, pulses := 1\<rparr>"
  have "unat (f_vfo ?a (cur_band ?a) (cur_vfo ?a)
                  + pulses ?a * pulses ?a * word_of_int (tuning ?a) + INTERFREQUENCY) < 400000000"
    by (simp add: reset_state_def INTERFREQUENCY_def)
  from tuning_step_total [OF this] obtain a' where a: "tuning_step ?a = Inr a'" ..
  have "unat (f_vfo ?b (cur_band ?b) (cur_vfo ?b)
                  + pulses ?b * pulses ?b * word_of_int (tuning ?b) + INTERFREQUENCY) < 400000000"
    by (simp add: reset_state_def INTERFREQUENCY_def)
  from tuning_step_total [OF this] obtain b' where b: "tuning_step ?b = Inr b'" ..
  have ra: "f_vfo a' 2 0 = 7200025"
    using tuning_step_changes_frequency [of ?a 1 5 7200000 a', OF _ _ _ _ a]
    by (simp add: reset_state_def)
  have rb: "f_vfo b' 2 0 = 6999999"
    using tuning_step_changes_frequency [of ?b "- 1" 1 7000000 b', OF _ _ _ _ b]
    by (simp add: reset_state_def)
  have "is_freq_ok 7200000 2" "\<not> is_freq_ok 7200025 2" "is_freq_ok 7000000 2" "\<not> is_freq_ok 6999999 2"
    by (simp_all add: is_freq_ok_def band_f0_def band_f1_def word_sle_eq)
  with ra rb show ?thesis
    by (simp add: a b)
qed

text \<open>
  C8. In band 0 the band-down key (code 3) leaves the whole state as it is, and so does
  the band-up key (code 0) in band 7: the \<open>switch\<close> changes no variable, writes no pin
  of the DDS, no register of the LO synthesizer, no byte of the EEPROM and draws nothing.
\<close>

theorem key_dispatch_band_limits:
  "(cur_band st = 0 \<longrightarrow> key_dispatch 3 st = Inr st)
   \<and> (cur_band st = 7 \<longrightarrow> key_dispatch 0 st = Inr st)"
  by (simp add: key_dispatch_def MAXBANDS_def)

theorem key_dispatch_band_limits_witness:
  "key_dispatch 3 reset_state = Inr reset_state
   \<and> key_dispatch 0 (reset_state\<lparr>cur_band := 7\<rparr>) = Inr (reset_state\<lparr>cur_band := 7\<rparr>)"
  using key_dispatch_band_limits [of reset_state]
    key_dispatch_band_limits [of "reset_state\<lparr>cur_band := 7\<rparr>"]
  by (simp add: reset_state_def)


lemma set_band_relay_outputs:
  shows "si5351 (set_band_relay b st) = si5351 st @ [(SYNTH_MS_0, f_lo st (pref_sideband ! nat b))]"
    and "lcd (set_band_relay b st) =
           lcd st @ [Putstring (calc_xpos 7) (calc_ypos 0) (sidebandstr ! nat (pref_sideband ! nat b))
                       (if sideband st = 0 then LIGHTRED else LIGHTBLUE) backcolor 1 1]"
  by (simp_all add: set_band_relay_def Let_def si5351_set_freq_def show_sideband_def
      lcd_putstring_def)

lemma band_changed_Inr:
  assumes "band_changed st = Inr st'"
  shows "\<exists>ws. st' = eeprom_write 256 (word_of_int (cur_band st))
           (set_band_relay (cur_band st)
             (show_band (cur_band st) 0
               (show_frequency1 (f_vfo st (cur_band st) (cur_vfo st)) 2
                 (show_frequency1 0 2 (pins_append ws st)))))"
proof -
  from assms obtain st1 where
    s: "set_frequency (f_vfo st (cur_band st) (cur_vfo st)) st = Inr st1"
    and r: "st' = eeprom_write 256 (word_of_int (cur_band st1))
           (set_band_relay (cur_band st1)
             (show_band (cur_band st1) 0
               (show_frequency1 (f_vfo st1 (cur_band st1) (cur_vfo st1)) 2
                 (show_frequency1 0 2 st1))))"
    by (auto simp add: band_changed_def Let_def split: sum.splits)
  from set_frequency_Inr [OF s] obtain ws where "st1 = pins_append ws st" ..
  with r show ?thesis by auto
qed

lemma band_changed_total:
  assumes "unat (f_vfo st (cur_band st) (cur_vfo st) + INTERFREQUENCY) < 400000000"
  shows "\<exists>st'. band_changed st = Inr st'"
proof -
  from set_frequency_total [OF assms, of st] obtain ws where
    "set_frequency (f_vfo st (cur_band st) (cur_vfo st)) st = Inr (pins_append ws st)" ..
  then show ?thesis
    by (simp add: band_changed_def Let_def)
qed

lemma band_changed_effect:
  assumes "band_changed st = Inr st'"
  shows "cur_band st' = cur_band st \<and> sideband st' = sideband st \<and> f_lo st' = f_lo st
     \<and> cur_vfo st' = cur_vfo st \<and> f_vfo st' = f_vfo st
     \<and> si5351 st' = si5351 st @ [(SYNTH_MS_0, f_lo st (pref_sideband ! nat (cur_band st)))]
     \<and> last (lcd st') =
         Putstring (calc_xpos 7) (calc_ypos 0) (sidebandstr ! nat (pref_sideband ! nat (cur_band st)))
           (if sideband st = 0 then LIGHTRED else LIGHTBLUE) backcolor 1 1"
proof -
  from band_changed_Inr [OF assms] obtain ws where "st' = eeprom_write 256 (word_of_int (cur_band st))
           (set_band_relay (cur_band st)
             (show_band (cur_band st) 0
               (show_frequency1 (f_vfo st (cur_band st) (cur_vfo st)) 2
                 (show_frequency1 0 2 (pins_append ws st)))))" ..
  then show ?thesis
    by (simp add: set_band_relay_outputs)
qed

text \<open>
  C10. A band change (key 0 below band 7, key 3 above band 0) programs the LO
  synthesizer with \<open>f_lo[pref_sideband[new band]]\<close> and draws the sideband indicator
  with the text of that preferred sideband, in the colour of the unchanged variable
  \<open>sideband\<close>; \<open>sideband\<close> itself and both LO frequencies stay as they were. The
  sideband key (code 1) is what changes \<open>sideband\<close>.
\<close>

theorem band_change_keeps_sideband:
  assumes "key_dispatch key st = Inr st'"
    and "key = 0 \<and> cur_band st < 7 \<and> nb = cur_band st + 1
         \<or> key = 3 \<and> 0 < cur_band st \<and> nb = cur_band st - 1"
  shows "cur_band st' = nb \<and> sideband st' = sideband st \<and> f_lo st' = f_lo st
     \<and> cur_vfo st' = cur_vfo st \<and> f_vfo st' = f_vfo st
     \<and> si5351 st' = si5351 st @ [(SYNTH_MS_0, f_lo st (pref_sideband ! nat nb))]
     \<and> last (lcd st') =
         Putstring (calc_xpos 7) (calc_ypos 0) (sidebandstr ! nat (pref_sideband ! nat nb))
           (if sideband st = 0 then LIGHTRED else LIGHTBLUE) backcolor 1 1
     \<and> map_sum id sideband (key_dispatch 1 st') = Inr (lnot (sideband st'))"
proof -
  have "band_changed (st\<lparr>cur_band := nb\<rparr>) = Inr st'"
    using assms by (auto simp add: key_dispatch_def MAXBANDS_def)
  from band_changed_effect [OF this] show ?thesis
    by (simp add: key_dispatch_def Let_def)
qed


lemma load_erased: "eeprom_load_frequency b v reset_state = - 1"
  unfolding eeprom_load_frequency_def eeprom_read_eeprom Let_def
  by (simp add: reset_state_def)

lemma boot_erased:
  shows "cur_band (boot reset_state) = 2"
    and "cur_vfo (boot reset_state) = 0"
    and "sideband (boot reset_state) = 0"
    and "f_vfo (boot reset_state) 3 0 = 14200000"
    and "f_vfo (boot reset_state) 2 0 = 7120000"
    and "f_lo (boot reset_state) 0 = 9998500"
    and "f_lo (boot reset_state) 1 = 10001500"
proof -
  have e: "eeprom reset_state = (\<lambda>_. 0xFF)"
    by (simp add: reset_state_def)
  show "cur_band (boot reset_state) = 2" and "cur_vfo (boot reset_state) = 0"
    by (simp_all add: boot_def boot_load_fields e)
  then show "sideband (boot reset_state) = 0"
    by (simp add: boot_def boot_load_fields(5) pref_sideband_def)
  show "f_vfo (boot reset_state) 3 0 = 14200000" and "f_vfo (boot reset_state) 2 0 = 7120000"
    by (simp_all add: boot_def boot_load_fields slot_value_def load_erased is_freq_ok_def
        band_f0_def band_f1_def f_vfo0_def word_sle_eq)
  show "f_lo (boot reset_state) 0 = 9998500" and "f_lo (boot reset_state) 1 = 10001500"
    by (simp_all add: boot_def boot_load_fields lo_value_def load_erased INTERFREQUENCY_def
        word_sless_alt)
qed

text \<open>
  After boot on an erased EEPROM the radio is in band 2 with \<open>sideband = 0\<close> (LSB).
  The band-up key leads to band 3, whose preferred sideband is 1: the LO is programmed
  with the USB frequency and the indicator reads USB, while \<open>sideband\<close> is still 0;
  the sideband key then sets it to 1. The band-down key leads back to band 2 and
  programs the LSB frequency.
\<close>

theorem band_change_keeps_sideband_witness:
  "\<exists>st' st''. key_dispatch 0 (boot reset_state) = Inr st'
     \<and> cur_band st' = 3 \<and> pref_sideband ! nat (cur_band st') = 1 \<and> sideband st' = 0
     \<and> last (si5351 st') = (SYNTH_MS_0, 10001500)
     \<and> last (lcd st') = Putstring 56 5 ''USB'' LIGHTRED backcolor 1 1
     \<and> map_sum id sideband (key_dispatch 1 st') = Inr 1
     \<and> key_dispatch 3 st' = Inr st''
     \<and> cur_band st'' = 2 \<and> sideband st'' = 0
     \<and> last (si5351 st'') = (SYNTH_MS_0, 9998500)"
proof -
  let ?s = "boot reset_state"
  have "unat (f_vfo (?s\<lparr>cur_band := 3\<rparr>) (cur_band (?s\<lparr>cur_band := 3\<rparr>))
           (cur_vfo (?s\<lparr>cur_band := 3\<rparr>)) + INTERFREQUENCY) < 400000000"
    by (simp add: boot_erased INTERFREQUENCY_def)
  from band_changed_total [OF this] obtain st' where
    b: "band_changed (?s\<lparr>cur_band := 3\<rparr>) = Inr st'" ..
  have k: "key_dispatch 0 ?s = Inr st'"
    using b by (simp add: key_dispatch_def MAXBANDS_def boot_erased)
  have c: "0 = (0::int) \<and> cur_band ?s < 7 \<and> 3 = cur_band ?s + 1
         \<or> 0 = (3::int) \<and> 0 < cur_band ?s \<and> 3 = cur_band ?s - 1"
    by (simp add: boot_erased)
  note up = band_change_keeps_sideband [OF k c]
  from up have u: "cur_band st' = 3 \<and> pref_sideband ! nat (cur_band st') = 1 \<and> sideband st' = 0
     \<and> last (si5351 st') = (SYNTH_MS_0, 10001500)
     \<and> last (lcd st') = Putstring 56 5 ''USB'' LIGHTRED backcolor 1 1
     \<and> map_sum id sideband (key_dispatch 1 st') = Inr 1"
    by (simp add: boot_erased pref_sideband_def sidebandstr_def calc_xpos_def calc_ypos_def
        FONTWIDTH_def FONTHEIGHT_def lnot_def)
  from up have v: "cur_band st' = 3" "cur_vfo st' = 0" "f_vfo st' 2 0 = 7120000"
      "f_lo st' 0 = 9998500" "sideband st' = 0"
    by (simp_all add: boot_erased)
  have "unat (f_vfo (st'\<lparr>cur_band := 2\<rparr>) (cur_band (st'\<lparr>cur_band := 2\<rparr>))
           (cur_vfo (st'\<lparr>cur_band := 2\<rparr>)) + INTERFREQUENCY) < 400000000"
    by (simp add: v INTERFREQUENCY_def)
  from band_changed_total [OF this] obtain st'' where
    b': "band_changed (st'\<lparr>cur_band := 2\<rparr>) = Inr st''" ..
  have k': "key_dispatch 3 st' = Inr st''"
    using b' by (simp add: key_dispatch_def MAXBANDS_def v)
  have c': "3 = (0::int) \<and> cur_band st' < 7 \<and> 2 = cur_band st' + 1
         \<or> 3 = (3::int) \<and> 0 < cur_band st' \<and> 2 = cur_band st' - 1"
    by (simp add: v)
  from band_change_keeps_sideband [OF k' c'] have
    "cur_band st'' = 2 \<and> sideband st'' = 0 \<and> last (si5351 st'') = (SYNTH_MS_0, 9998500)"
    by (simp add: v pref_sideband_def)
  with k k' u show ?thesis by blast
qed

end
